theory Spec2Isabelle
  imports Main
begin

section \<open>Promises, errors and strings\<close>

text \<open>
  The importer (\<^verbatim>\<open>src/services/DataImporter.ts\<close>) is written with promises. A settled
  promise is modelled by its outcome: \<open>Inl e\<close> for a rejection (or an exception thrown
  inside a \<^verbatim>\<open>then\<close> callback), \<open>Inr v\<close> for a fulfilment with value \<open>v\<close>.
\<close>

datatype error = TypeError | LookupFailure | PersistenceFailure

type_synonym 'a promise = "error + 'a"

definition promise_then :: "'a promise \<Rightarrow> ('a \<Rightarrow> 'b promise) \<Rightarrow> 'b promise" where
  "promise_then p f = (case p of Inl e \<Rightarrow> Inl e | Inr v \<Rightarrow> f v)"

definition promise_catch :: "'a promise \<Rightarrow> (error \<Rightarrow> 'a promise) \<Rightarrow> 'a promise" where
  "promise_catch p h = (case p of Inl e \<Rightarrow> h e | Inr v \<Rightarrow> Inr v)"

fun promise_all :: "'a promise list \<Rightarrow> 'a list promise" where
  "promise_all [] = Inr []"
| "promise_all (p # ps) =
     (case p of
        Inl e \<Rightarrow> Inl e
      | Inr v \<Rightarrow> (case promise_all ps of Inl e \<Rightarrow> Inl e | Inr vs \<Rightarrow> Inr (v # vs)))"

text \<open>
  A JavaScript string is a sequence of code units; the model uses \<open>string\<close>, that is
  the code units \<open>0x00\<close> to \<open>0xFF\<close>: the line terminators and white space beyond
  \<open>0xFF\<close> (such as \<open>U+2028\<close>) are outside the model. An optional field (absent,
  \<^verbatim>\<open>undefined\<close> or \<^verbatim>\<open>null\<close>) is \<open>None\<close>.
\<close>

definition isUpperAZ :: "char \<Rightarrow> bool" where
  "isUpperAZ c = (c \<in> set ''ABCDEFGHIJKLMNOPQRSTUVWXYZ'')"

definition isLowerAZ :: "char \<Rightarrow> bool" where
  "isLowerAZ c = (c \<in> set ''abcdefghijklmnopqrstuvwxyz'')"

definition isDigit :: "char \<Rightarrow> bool" where
  "isDigit c = (c \<in> set ''0123456789'')"

text \<open>The dot of a regular expression matches every code unit but a line terminator.\<close>

definition isLineTerminator :: "char \<Rightarrow> bool" where
  "isLineTerminator c = (c = CHR 0x0A \<or> c = CHR 0x0D)"

text \<open>\<^verbatim>\<open>String.prototype.trim\<close> strips white space and line terminators at both ends.\<close>

definition isWhiteSpace :: "char \<Rightarrow> bool" where
  "isWhiteSpace c =
     (c \<in> set [CHR 0x09, CHR 0x0A, CHR 0x0B, CHR 0x0C, CHR 0x0D, CHR 0x20, CHR 0xA0])"

definition trim :: "string \<Rightarrow> string" where
  "trim s = rev (dropWhile isWhiteSpace (rev (dropWhile isWhiteSpace s)))"

text \<open>
  The test \<^verbatim>\<open>x && x.trim()\<close> of the backfill rules: an absent field and the empty
  string are falsy.
\<close>

definition truthyTrimmed :: "string option \<Rightarrow> bool" where
  "truthyTrimmed x = (case x of None \<Rightarrow> False | Some s \<Rightarrow> s \<noteq> [] \<and> trim s \<noteq> [])"

section \<open>The feed's records\<close>

text \<open>
  \<^verbatim>\<open>IEvseDataRecord\<close>: the fields the reconciliation reads or writes. The record is
  extensible, so every other field of the feed's station record (address, coordinates,
  option lists, flags) lives in the extension part and is carried along unchanged.
\<close>

record evseData =
  EvseId :: string
  OperatorId :: string
  ChargingStationName :: "string option"
  EnChargingStationName :: "string option"
  EnAdditionalInfo :: "string option"

text \<open>\<^verbatim>\<open>IEVSE_tr\<close>: a row of the translation table.\<close>

record evse_tr =
  evseId :: string
  chargingStationName :: "string option"
  languageCode :: string
  additionalInfo :: "string option"

text \<open>
  The country-to-language service \<^verbatim>\<open>DataImportHelper.getLanguageCodeByISO3166Alpha3\<close>
  is a collaborator outside the importer: it is a parameter of the model, a function
  from the three-letter code to the outcome of the promise it returns.
\<close>

type_synonym lookup = "string \<Rightarrow> string promise"

section \<open>Localization extraction\<close>

subsection \<open>The regular expressions\<close>

text \<open>
  \<^verbatim>\<open>(.*?)\|\|\|\<close> at the head of a string: the lazy star first tries to match the
  delimiter, and only when that fails consumes one more code unit, which must not be a
  line terminator. The result is the captured text.
\<close>

fun lazyCapture :: "string \<Rightarrow> string option" where
  "lazyCapture [] = None"
| "lazyCapture (c # cs) =
     (if take 3 (c # cs) = ''|||'' then Some []
      else if isLineTerminator c then None
      else map_option ((#) c) (lazyCapture cs))"

text \<open>
  \<^verbatim>\<open>([A-Z]{3}):(.*?)\|\|\|\<close> at the head of a string: the two captures. The match
  is \<open>4 + length capture + 3\<close> code units long.
\<close>

fun localizedInfoAt :: "string \<Rightarrow> (string \<times> string) option" where
  "localizedInfoAt (a # b # c # d # rest) =
     (if isUpperAZ a \<and> isUpperAZ b \<and> isUpperAZ c \<and> d = CHR '':''
      then map_option (Pair [a, b, c]) (lazyCapture rest)
      else None)"
| "localizedInfoAt _ = None"

text \<open>
  The leftmost match in the suffix \<open>s\<close> that starts at index \<open>i\<close> of the subject:
  the two captures and the index just after the match.
\<close>

fun searchLocalized :: "string \<Rightarrow> nat \<Rightarrow> (string \<times> string \<times> nat) option" where
  "searchLocalized s i =
     (case localizedInfoAt s of
        Some (code, cap) \<Rightarrow> Some (code, cap, i + 4 + length cap + 3)
      | None \<Rightarrow> (case s of [] \<Rightarrow> None | _ # t \<Rightarrow> searchLocalized t (Suc i)))"

declare searchLocalized.simps [simp del]

text \<open>
  \<^verbatim>\<open>LOCALIZED_INFO_REGEX.exec(s)\<close>. The expression has the global flag, so it is
  stateful: the search starts at \<^verbatim>\<open>lastIndex\<close>; a match sets \<^verbatim>\<open>lastIndex\<close> to the index
  after it, a failure resets it to 0. The state is passed explicitly.
\<close>

definition execLocalized :: "string \<Rightarrow> nat \<Rightarrow> (string \<times> string) option \<times> nat" where
  "execLocalized s lastIndex =
     (if length s < lastIndex then (None, 0)
      else (case searchLocalized (drop lastIndex s) lastIndex of
              None \<Rightarrow> (None, 0)
            | Some (code, cap, e) \<Rightarrow> (Some (code, cap), e)))"

text \<open>
  \<^verbatim>\<open>.*\|\|\|\<close> at the head of a string: the greedy star consumes a code unit whenever
  it can and falls back to the delimiter.
\<close>

fun greedyDelim :: "string \<Rightarrow> bool" where
  "greedyDelim [] = False"
| "greedyDelim (c # cs) =
     ((\<not> isLineTerminator c \<and> greedyDelim cs) \<or> take 3 (c # cs) = ''|||'')"

definition alpha3RegexAt :: "string \<Rightarrow> string \<Rightarrow> bool" where
  "alpha3RegexAt alpha3 s =
     (take (length alpha3 + 1) s = alpha3 @ '':'' \<and> greedyDelim (drop (length alpha3 + 1) s))"

text \<open>
  \<^verbatim>\<open>new RegExp(alpha3 + ':.*\\|\\|\\|').test(s)\<close>: no global flag, so no state; the
  test succeeds when the expression matches at some index.
\<close>

fun alpha3RegexTest :: "string \<Rightarrow> string \<Rightarrow> bool" where
  "alpha3RegexTest alpha3 [] = alpha3RegexAt alpha3 []"
| "alpha3RegexTest alpha3 (c # cs) =
     (alpha3RegexAt alpha3 (c # cs) \<or> alpha3RegexTest alpha3 cs)"

definition CHARGING_STATION_NAME_ALPHA_3 :: string where
  "CHARGING_STATION_NAME_ALPHA_3 = ''DEU''"

definition EN_CHARGING_STATION_NAME_ALPHA_3 :: string where
  "EN_CHARGING_STATION_NAME_ALPHA_3 = ''GBR''"

subsection \<open>Building the rows\<close>

text \<open>\<^verbatim>\<open>getEvseTr\<close>: a failed lookup is caught and the country code stands in.\<close>

definition getEvseTr ::
  "lookup \<Rightarrow> string \<Rightarrow> string \<Rightarrow> string option \<Rightarrow> string option \<Rightarrow> evse_tr promise" where
  "getEvseTr getLanguageCodeByISO3166Alpha3 alpha3 evseId' chargingStationName' additionalInfo' =
     promise_then
       (promise_catch (getLanguageCodeByISO3166Alpha3 alpha3) (\<lambda>_. Inr alpha3))
       (\<lambda>languageCode'. Inr \<lparr>evseId = evseId', chargingStationName = chargingStationName',
                             languageCode = languageCode', additionalInfo = additionalInfo'\<rparr>)"

text \<open>
  A match ends after the index the search started at and inside the string: each
  \<^verbatim>\<open>exec\<close> of the scan moves \<^verbatim>\<open>lastIndex\<close> forward, which is why the scan ends.
\<close>

lemma lazyCapture_length:
  "lazyCapture s = Some cap \<Longrightarrow> length cap + 3 \<le> length s"
proof (induction s arbitrary: cap)
  case Nil
  then show ?case by simp
next
  case (Cons c cs)
  show ?case
  proof (cases "take 3 (c # cs) = ''|||''")
    case True
    then have "length (take 3 (c # cs)) = 3" by simp
    then have "3 \<le> length (c # cs)" by (simp add: min_def split: if_splits)
    with True Cons.prems show ?thesis by simp
  next
    case False
    with Cons.prems obtain cap' where c: "lazyCapture cs = Some cap'" "cap = c # cap'"
      by (auto split: if_splits)
    from Cons.IH [OF c(1)] c(2) show ?thesis by simp
  qed
qed

lemma localizedInfoAt_length:
  "localizedInfoAt s = Some (code, cap) \<Longrightarrow> 4 + length cap + 3 \<le> length s \<and> length code = 3"
  by (cases s rule: localizedInfoAt.cases) (auto split: if_splits dest: lazyCapture_length)

lemma searchLocalized_bounds:
  "searchLocalized s i = Some (code, cap, e) \<Longrightarrow> i < e \<and> e \<le> i + length s"
proof (induction s arbitrary: i)
  case Nil
  then show ?case by (simp add: searchLocalized.simps [of "[]"])
next
  case (Cons x xs)
  show ?case
  proof (cases "localizedInfoAt (x # xs)")
    case None
    with Cons.prems have "searchLocalized xs (Suc i) = Some (code, cap, e)"
      by (simp add: searchLocalized.simps [of "x # xs"])
    from Cons.IH [OF this] show ?thesis by simp
  next
    case (Some m)
    obtain code' cap' where m: "m = (code', cap')" by (cases m)
    from Some m Cons.prems have e: "e = i + 4 + length cap' + 3"
      by (auto simp add: searchLocalized.simps [of "x # xs"])
    from localizedInfoAt_length [of "x # xs" code' cap'] Some m
    have "4 + length cap' + 3 \<le> length (x # xs)" by simp
    with e show ?thesis by simp
  qed
qed

lemma execLocalized_bounds:
  "execLocalized s li = (Some m, li') \<Longrightarrow> li < li' \<and> li' \<le> length s"
  unfolding execLocalized_def
  by (auto split: if_splits option.splits dest!: searchLocalized_bounds)

text \<open>
  The \<^verbatim>\<open>while (match != null)\<close> loop of \<^verbatim>\<open>getInternationalData\<close>, from the current
  match and the expression's \<^verbatim>\<open>lastIndex\<close>: the promises pushed and the final
  \<^verbatim>\<open>lastIndex\<close>.
\<close>

function whileMatch ::
  "lookup \<Rightarrow> 'a evseData_scheme \<Rightarrow> string \<Rightarrow> (string \<times> string) option \<times> nat
     \<Rightarrow> evse_tr promise list \<times> nat" where
  "whileMatch lk data s (None, lastIndex) = ([], lastIndex)"
| "whileMatch lk data s (Some (countryAlpha3, cap), lastIndex) =
     (let content = trim cap;
          chargingStationName' =
            (if countryAlpha3 = EN_CHARGING_STATION_NAME_ALPHA_3 then EnChargingStationName data
             else if countryAlpha3 = CHARGING_STATION_NAME_ALPHA_3 then ChargingStationName data
             else None);
          p = getEvseTr lk countryAlpha3 (EvseId data) chargingStationName' (Some content);
          (ps, lastIndex') = whileMatch lk data s (execLocalized s lastIndex)
      in (p # ps, lastIndex'))"
  by pat_completeness auto
termination
proof (relation "measure (\<lambda>(lk, data, s, m, lastIndex).
                   (case m of None \<Rightarrow> 0 | Some _ \<Rightarrow> Suc (Suc (length s) - lastIndex)))")
  show "wf (measure (\<lambda>(lk :: lookup, data :: 'a evseData_scheme, s :: string,
                        m :: (string \<times> string) option, lastIndex :: nat).
                   (case m of None \<Rightarrow> 0 | Some _ \<Rightarrow> Suc (Suc (length s) - lastIndex))))"
    by simp
next
  fix lk :: lookup and data :: "'a evseData_scheme" and s :: string
    and countryAlpha3 cap :: string and lastIndex :: nat
  obtain m li' where e: "execLocalized s lastIndex = (m, li')"
    by (cases "execLocalized s lastIndex")
  show "((lk, data, s, execLocalized s lastIndex), lk, data, s, Some (countryAlpha3, cap), lastIndex)
        \<in> measure (\<lambda>(lk, data, s, m, lastIndex).
                   (case m of None \<Rightarrow> 0 | Some _ \<Rightarrow> Suc (Suc (length s) - lastIndex)))"
  proof (cases m)
    case None
    with e show ?thesis by simp
  next
    case (Some x)
    with e execLocalized_bounds [of s lastIndex x li'] have "lastIndex < li' \<and> li' \<le> length s"
      by simp
    then have "Suc (length s) - li' < Suc (length s) - lastIndex" by arith
    with e Some show ?thesis by simp
  qed
qed

declare whileMatch.simps [simp del]

text \<open>
  The body of \<^verbatim>\<open>evseData.forEach\<close> in \<^verbatim>\<open>getInternationalData\<close>: from the promises
  pushed so far and the expression's \<^verbatim>\<open>lastIndex\<close> to the same after this station. A
  falsy \<^verbatim>\<open>EnAdditionalInfo\<close> (absent or empty) returns at once.
\<close>

definition internationalStep ::
  "lookup \<Rightarrow> 'a evseData_scheme \<Rightarrow> evse_tr promise list \<times> nat \<Rightarrow> evse_tr promise list \<times> nat" where
  "internationalStep lk data st =
     (case st of (evseTrsPromises, lastIndex) \<Rightarrow>
       (case EnAdditionalInfo data of
          None \<Rightarrow> (evseTrsPromises, lastIndex)
        | Some s \<Rightarrow>
            if s = [] then (evseTrsPromises, lastIndex)
            else
              (case whileMatch lk data s (execLocalized s lastIndex) of (scanned, lastIndex') \<Rightarrow>
                 (evseTrsPromises @ scanned
                    @ (if \<not> alpha3RegexTest EN_CHARGING_STATION_NAME_ALPHA_3 s
                          \<and> truthyTrimmed (EnChargingStationName data)
                       then [getEvseTr lk EN_CHARGING_STATION_NAME_ALPHA_3 (EvseId data)
                               (EnChargingStationName data) None]
                       else [])
                    @ (if \<not> alpha3RegexTest CHARGING_STATION_NAME_ALPHA_3 s
                          \<and> truthyTrimmed (ChargingStationName data)
                       then [getEvseTr lk CHARGING_STATION_NAME_ALPHA_3 (EvseId data)
                               (ChargingStationName data) None]
                       else []),
                  lastIndex'))))"

text \<open>
  \<^verbatim>\<open>getInternationalData\<close>: a fresh expression (\<^verbatim>\<open>lastIndex\<close> 0) and an empty promise
  list, the loop over the stations, then \<^verbatim>\<open>Promise.all\<close>.
\<close>

definition internationalLoop ::
  "lookup \<Rightarrow> 'a evseData_scheme list \<Rightarrow> evse_tr promise list \<times> nat
     \<Rightarrow> evse_tr promise list \<times> nat" where
  "internationalLoop lk evseData st = fold (internationalStep lk) evseData st"

definition getInternationalData :: "lookup \<Rightarrow> 'a evseData_scheme list \<Rightarrow> evse_tr list promise" where
  "getInternationalData lk evseData = promise_all (fst (internationalLoop lk evseData ([], 0)))"

subsection \<open>The loop, station by station\<close>

lemma execLocalized_None: "execLocalized s li = (None, li') \<Longrightarrow> li' = 0"
  unfolding execLocalized_def by (auto split: if_splits option.splits)

lemma execLocalized_decrease:
  "execLocalized s li = (Some x, li') \<Longrightarrow> Suc (length s) - li' < Suc (length s) - li"
  using execLocalized_bounds [of s li x li'] by arith

text \<open>
  The matches the loop sees, one after the other: the current match, then what each
  further \<^verbatim>\<open>exec\<close> returns, until \<^verbatim>\<open>null\<close>.
\<close>

function scanMatches :: "string \<Rightarrow> (string \<times> string) option \<times> nat \<Rightarrow> (string \<times> string) list" where
  "scanMatches s (None, lastIndex) = []"
| "scanMatches s (Some m, lastIndex) = m # scanMatches s (execLocalized s lastIndex)"
  by pat_completeness auto
termination
proof (relation "measure (\<lambda>(s, m, lastIndex).
                   (case m of None \<Rightarrow> 0 | Some _ \<Rightarrow> Suc (Suc (length s) - lastIndex)))")
  show "wf (measure (\<lambda>(s :: string, m :: (string \<times> string) option, lastIndex :: nat).
                   (case m of None \<Rightarrow> 0 | Some _ \<Rightarrow> Suc (Suc (length s) - lastIndex))))"
    by simp
next
  fix s :: string and m :: "string \<times> string" and lastIndex :: nat
  obtain m' li' where e: "execLocalized s lastIndex = (m', li')"
    by (cases "execLocalized s lastIndex")
  show "((s, execLocalized s lastIndex), s, Some m, lastIndex)
        \<in> measure (\<lambda>(s, m, lastIndex).
                   (case m of None \<Rightarrow> 0 | Some _ \<Rightarrow> Suc (Suc (length s) - lastIndex)))"
  proof (cases m')
    case None
    with e show ?thesis by simp
  next
    case (Some x)
    with e execLocalized_decrease [of s lastIndex x li'] show ?thesis by simp
  qed
qed

declare scanMatches.simps [simp del]

text \<open>The language code \<^verbatim>\<open>getEvseTr\<close> ends up with: the lookup's answer, or the country code.\<close>

definition languageCodeOf :: "lookup \<Rightarrow> string \<Rightarrow> string" where
  "languageCodeOf lk alpha3 = (case lk alpha3 of Inl _ \<Rightarrow> alpha3 | Inr l \<Rightarrow> l)"

text \<open>The row pushed for one match of the packed field.\<close>

definition scannedRow :: "lookup \<Rightarrow> 'a evseData_scheme \<Rightarrow> string \<times> string \<Rightarrow> evse_tr" where
  "scannedRow lk data m =
     \<lparr>evseId = EvseId data,
      chargingStationName =
        (if fst m = EN_CHARGING_STATION_NAME_ALPHA_3 then EnChargingStationName data
         else if fst m = CHARGING_STATION_NAME_ALPHA_3 then ChargingStationName data
         else None),
      languageCode = languageCodeOf lk (fst m),
      additionalInfo = Some (trim (snd m))\<rparr>"

lemma getEvseTr_fulfilled:
  "getEvseTr lk a i n ai =
     Inr \<lparr>evseId = i, chargingStationName = n,
          languageCode = languageCodeOf lk a, additionalInfo = ai\<rparr>"
  by (simp add: getEvseTr_def promise_then_def promise_catch_def languageCodeOf_def
      split: sum.splits)

lemma promise_all_fulfilled: "promise_all (map Inr vs) = Inr vs"
  by (induction vs) simp_all

lemma whileMatch_scanMatches:
  "whileMatch lk data s st =
     (map (\<lambda>m. Inr (scannedRow lk data m)) (scanMatches s st),
      (case fst st of None \<Rightarrow> snd st | Some _ \<Rightarrow> 0))"
proof (induction lk data s st rule: whileMatch.induct)
  case (1 lk data s lastIndex)
  show ?case by (simp add: whileMatch.simps scanMatches.simps)
next
  case (2 lk data s countryAlpha3 cap lastIndex)
  obtain m' li' where e: "execLocalized s lastIndex = (m', li')"
    by (cases "execLocalized s lastIndex")
  have z: "(case m' of None \<Rightarrow> li' | Some _ \<Rightarrow> 0) = 0"
    using e execLocalized_None [of s lastIndex li'] by (cases m') simp_all
  have IH: "whileMatch lk data s (m', li') =
     (map (\<lambda>m. Inr (scannedRow lk data m)) (scanMatches s (m', li')), 0)"
    using 2 [OF refl refl refl] e z by (cases m') simp_all
  have "whileMatch lk data s (Some (countryAlpha3, cap), lastIndex) =
     (Inr (scannedRow lk data (countryAlpha3, cap))
        # map (\<lambda>m. Inr (scannedRow lk data m)) (scanMatches s (m', li')), 0)"
    by (simp add: whileMatch.simps e IH getEvseTr_fulfilled scannedRow_def)
  then show ?case by (simp add: scanMatches.simps e)
qed

text \<open>The rows of the two backfill rules, for a truthy packed field \<open>s\<close>.\<close>

definition backfillRows :: "lookup \<Rightarrow> 'a evseData_scheme \<Rightarrow> string \<Rightarrow> evse_tr list" where
  "backfillRows lk data s =
     (if \<not> alpha3RegexTest EN_CHARGING_STATION_NAME_ALPHA_3 s
         \<and> truthyTrimmed (EnChargingStationName data)
      then [\<lparr>evseId = EvseId data, chargingStationName = EnChargingStationName data,
             languageCode = languageCodeOf lk EN_CHARGING_STATION_NAME_ALPHA_3,
             additionalInfo = None\<rparr>]
      else [])
     @ (if \<not> alpha3RegexTest CHARGING_STATION_NAME_ALPHA_3 s
           \<and> truthyTrimmed (ChargingStationName data)
        then [\<lparr>evseId = EvseId data, chargingStationName = ChargingStationName data,
               languageCode = languageCodeOf lk CHARGING_STATION_NAME_ALPHA_3,
               additionalInfo = None\<rparr>]
        else [])"

text \<open>The rows one station contributes when the expression's \<^verbatim>\<open>lastIndex\<close> is 0.\<close>

definition stationRows :: "lookup \<Rightarrow> 'a evseData_scheme \<Rightarrow> evse_tr list" where
  "stationRows lk data =
     (case EnAdditionalInfo data of
        None \<Rightarrow> []
      | Some s \<Rightarrow>
          if s = [] then []
          else map (scannedRow lk data) (scanMatches s (execLocalized s 0)) @ backfillRows lk data s)"

lemma whileMatch_exec:
  "whileMatch lk data s (execLocalized s li) =
     (map (\<lambda>m. Inr (scannedRow lk data m)) (scanMatches s (execLocalized s li)), 0)"
proof -
  obtain m li' where e: "execLocalized s li = (m, li')" by (cases "execLocalized s li")
  show ?thesis
    using e execLocalized_None [of s li li']
    by (cases m) (simp_all add: whileMatch_scanMatches)
qed

lemma internationalStep_rows:
  "internationalStep lk data (map Inr rows, 0) = (map Inr (rows @ stationRows lk data), 0)"
proof (cases "EnAdditionalInfo data")
  case None
  then show ?thesis by (simp add: internationalStep_def stationRows_def)
next
  case (Some s)
  show ?thesis
    using Some
    by (simp add: internationalStep_def stationRows_def whileMatch_exec
        backfillRows_def getEvseTr_fulfilled)
qed

lemma internationalLoop_rows:
  "internationalLoop lk evseData (map Inr rows, 0) =
     (map Inr (rows @ concat (map (stationRows lk) evseData)), 0)"
  unfolding internationalLoop_def
proof (induction evseData arbitrary: rows)
  case Nil
  show ?case by simp
next
  case (Cons d ds)
  show ?case using Cons.IH [of "rows @ stationRows lk d"]
    by (simp add: internationalStep_rows)
qed

lemma getInternationalData_rows:
  "getInternationalData lk evseData = Inr (concat (map (stationRows lk) evseData))"
  using internationalLoop_rows [of lk evseData "[]"]
  by (simp add: getInternationalData_def promise_all_fulfilled)



subsection \<open>Example data\<close>

definition exampleLookup :: lookup where
  "exampleLookup alpha3 =
     (if alpha3 = ''DEU'' then Inr ''de''
      else if alpha3 = ''GBR'' then Inr ''en''
      else Inl LookupFailure)"

text \<open>A lookup that gives two countries one language.\<close>

definition germanLookup :: lookup where
  "germanLookup alpha3 =
     (if alpha3 = ''DEU'' then Inr ''de''
      else if alpha3 = ''AUT'' then Inr ''de''
      else if alpha3 = ''GBR'' then Inr ''en''
      else Inl LookupFailure)"

definition exampleStation :: evseData where
  "exampleStation =
     \<lparr>EvseId = ''DE*TBB*E5678'', OperatorId = ''DE*TBA'',
      ChargingStationName = Some ''StationName-DE'',
      EnChargingStationName = Some ''StationName-EN'',
      EnAdditionalInfo = Some ''DEU:Inhalt|||GBR:Content|||FRA:Objet|||''\<rparr>"

definition duplicateSegmentStation :: evseData where
  "duplicateSegmentStation =
     \<lparr>EvseId = ''DE*TBA*E1234'', OperatorId = ''DE*TBA'',
      ChargingStationName = None, EnChargingStationName = None,
      EnAdditionalInfo = Some ''DEU:a|||DEU:b|||''\<rparr>"

definition noPackedFieldStation :: evseData where
  "noPackedFieldStation =
     \<lparr>EvseId = ''DE*TBA*E1234'', OperatorId = ''DE*TBA'',
      ChargingStationName = Some ''StationName-DE'',
      EnChargingStationName = Some ''StationName-EN'',
      EnAdditionalInfo = None\<rparr>"

section \<open>Properties of the localization extraction\<close>

lemma execLocalized_example:
  "execLocalized ''DEU:Inhalt|||GBR:Content|||FRA:Objet|||'' 0 = (Some (''DEU'', ''Inhalt''), 13)"
  "execLocalized ''DEU:Inhalt|||GBR:Content|||FRA:Objet|||'' 13 = (Some (''GBR'', ''Content''), 27)"
  "execLocalized ''DEU:Inhalt|||GBR:Content|||FRA:Objet|||'' 27 = (Some (''FRA'', ''Objet''), 39)"
  "execLocalized ''DEU:Inhalt|||GBR:Content|||FRA:Objet|||'' 39 = (None, 0)"
  by code_simp+

lemma alpha3RegexTest_example:
  "alpha3RegexTest ''GBR'' ''DEU:Inhalt|||GBR:Content|||FRA:Objet|||''"
  "alpha3RegexTest ''DEU'' ''DEU:Inhalt|||GBR:Content|||FRA:Objet|||''"
  by code_simp+

lemma trim_example:
  "trim ''Inhalt'' = ''Inhalt''" "trim ''Content'' = ''Content''" "trim ''Objet'' = ''Objet''"
  by code_simp+

lemma stationRows_example:
  assumes "EnAdditionalInfo data = Some ''DEU:Inhalt|||GBR:Content|||FRA:Objet|||''"
    and "ChargingStationName data = Some ''StationName-DE''"
    and "EnChargingStationName data = Some ''StationName-EN''"
  shows "stationRows lk data =
     [\<lparr>evseId = EvseId data, chargingStationName = Some ''StationName-DE'',
        languageCode = languageCodeOf lk ''DEU'', additionalInfo = Some ''Inhalt''\<rparr>,
      \<lparr>evseId = EvseId data, chargingStationName = Some ''StationName-EN'',
        languageCode = languageCodeOf lk ''GBR'', additionalInfo = Some ''Content''\<rparr>,
      \<lparr>evseId = EvseId data, chargingStationName = None,
        languageCode = languageCodeOf lk ''FRA'', additionalInfo = Some ''Objet''\<rparr>]"
  using assms
  by (simp del: alpha3RegexTest.simps
      add: stationRows_def backfillRows_def scannedRow_def scanMatches.simps
        execLocalized_example alpha3RegexTest_example trim_example
        CHARGING_STATION_NAME_ALPHA_3_def EN_CHARGING_STATION_NAME_ALPHA_3_def)

text \<open>
  C1. A station whose packed field is \<^verbatim>\<open>DEU:Inhalt|||GBR:Content|||FRA:Objet|||\<close>, whose
  primary name is \<^verbatim>\<open>StationName-DE\<close> and whose English name is \<^verbatim>\<open>StationName-EN\<close>
  yields exactly three translation rows: the \<^verbatim>\<open>DEU\<close> row with the primary name, the
  \<^verbatim>\<open>GBR\<close> row with the English name and the \<^verbatim>\<open>FRA\<close> row without a name, each with
  the language code derived from its country code and the trimmed text of its segment.
  This holds for the station alone and for the station anywhere in a list, where its three
  rows stand between the rows of the stations before it and of those after it.
\<close>

theorem packed_field_example_three_rows:
  assumes "EnAdditionalInfo data = Some ''DEU:Inhalt|||GBR:Content|||FRA:Objet|||''"
    and "ChargingStationName data = Some ''StationName-DE''"
    and "EnChargingStationName data = Some ''StationName-EN''"
  shows "getInternationalData lk [data] =
     Inr [\<lparr>evseId = EvseId data, chargingStationName = Some ''StationName-DE'',
            languageCode = languageCodeOf lk ''DEU'', additionalInfo = Some ''Inhalt''\<rparr>,
          \<lparr>evseId = EvseId data, chargingStationName = Some ''StationName-EN'',
            languageCode = languageCodeOf lk ''GBR'', additionalInfo = Some ''Content''\<rparr>,
          \<lparr>evseId = EvseId data, chargingStationName = None,
            languageCode = languageCodeOf lk ''FRA'', additionalInfo = Some ''Objet''\<rparr>]
   \<and> getInternationalData lk (before @ data # after) =
     promise_then (getInternationalData lk before) (\<lambda>rowsBefore.
     promise_then (getInternationalData lk after) (\<lambda>rowsAfter.
       Inr (rowsBefore
          @ [\<lparr>evseId = EvseId data, chargingStationName = Some ''StationName-DE'',
               languageCode = languageCodeOf lk ''DEU'', additionalInfo = Some ''Inhalt''\<rparr>,
             \<lparr>evseId = EvseId data, chargingStationName = Some ''StationName-EN'',
               languageCode = languageCodeOf lk ''GBR'', additionalInfo = Some ''Content''\<rparr>,
             \<lparr>evseId = EvseId data, chargingStationName = None,
               languageCode = languageCodeOf lk ''FRA'', additionalInfo = Some ''Objet''\<rparr>]
          @ rowsAfter)))"
  using stationRows_example [OF assms, of lk]
  by (simp add: getInternationalData_rows promise_then_def)

theorem packed_field_example_three_rows_witness:
  "getInternationalData exampleLookup [exampleStation] =
     Inr [\<lparr>evseId = ''DE*TBB*E5678'', chargingStationName = Some ''StationName-DE'',
            languageCode = ''de'', additionalInfo = Some ''Inhalt''\<rparr>,
          \<lparr>evseId = ''DE*TBB*E5678'', chargingStationName = Some ''StationName-EN'',
            languageCode = ''en'', additionalInfo = Some ''Content''\<rparr>,
          \<lparr>evseId = ''DE*TBB*E5678'', chargingStationName = None,
            languageCode = ''FRA'', additionalInfo = Some ''Objet''\<rparr>]"
  using packed_field_example_three_rows [of exampleStation exampleLookup "[]" "[]"]
  by (simp add: exampleStation_def exampleLookup_def languageCodeOf_def)

subsection \<open>Country codes of the rows\<close>

text \<open>The three-letter upper-case codes, the only ones the scan can capture.\<close>

definition alpha3Codes :: "string set" where
  "alpha3Codes = {c. length c = 3 \<and> list_all isUpperAZ c}"

text \<open>The key of a translation row: station id and language code.\<close>

definition trKey :: "evse_tr \<Rightarrow> string \<times> string" where
  "trKey r = (evseId r, languageCode r)"

lemma lazyCapture_greedyDelim: "lazyCapture s = Some cap \<Longrightarrow> greedyDelim s"
  by (induction s arbitrary: cap) (auto split: if_splits)

lemma localizedInfoAt_alpha3:
  "localizedInfoAt s = Some (code, cap) \<Longrightarrow> alpha3RegexAt code s \<and> code \<in> alpha3Codes"
  by (cases s rule: localizedInfoAt.cases)
    (auto simp: alpha3RegexAt_def alpha3Codes_def split: if_splits dest: lazyCapture_greedyDelim)

lemma alpha3RegexTest_at: "alpha3RegexAt a s \<Longrightarrow> alpha3RegexTest a s"
  by (cases s) simp_all

lemma alpha3RegexTest_drop: "alpha3RegexTest a (drop n s) \<Longrightarrow> alpha3RegexTest a s"
proof (induction s arbitrary: n)
  case Nil
  then show ?case by simp
next
  case (Cons x xs)
  then show ?case by (cases n) auto
qed

lemma searchLocalized_alpha3:
  "searchLocalized s i = Some (code, cap, e) \<Longrightarrow> alpha3RegexTest code s \<and> code \<in> alpha3Codes"
proof (induction s arbitrary: i)
  case Nil
  then show ?case by (simp add: searchLocalized.simps [of "[]"])
next
  case (Cons x xs)
  show ?case
  proof (cases "localizedInfoAt (x # xs)")
    case None
    with Cons.prems have "searchLocalized xs (Suc i) = Some (code, cap, e)"
      by (simp add: searchLocalized.simps [of "x # xs"])
    from Cons.IH [OF this] show ?thesis by simp
  next
    case (Some m)
    with Cons.prems have "localizedInfoAt (x # xs) = Some (code, cap)"
      by (cases m) (auto simp add: searchLocalized.simps [of "x # xs"])
    from localizedInfoAt_alpha3 [OF this] show ?thesis
      using alpha3RegexTest_at by blast
  qed
qed

lemma execLocalized_alpha3:
  "execLocalized s li = (Some (code, cap), li') \<Longrightarrow> alpha3RegexTest code s \<and> code \<in> alpha3Codes"
  unfolding execLocalized_def
  by (auto split: if_splits option.splits dest!: searchLocalized_alpha3 dest: alpha3RegexTest_drop)

lemma scanMatches_alpha3_gen:
  "(\<And>m. fst st = Some m \<Longrightarrow> alpha3RegexTest (fst m) s \<and> fst m \<in> alpha3Codes) \<Longrightarrow>
   m \<in> set (scanMatches s st) \<Longrightarrow> alpha3RegexTest (fst m) s \<and> fst m \<in> alpha3Codes"
proof (induction s st rule: scanMatches.induct)
  case (1 s lastIndex)
  then show ?case by (simp add: scanMatches.simps)
next
  case (2 s m0 lastIndex)
  from "2.prems"(2) consider "m = m0" | "m \<in> set (scanMatches s (execLocalized s lastIndex))"
    by (auto simp: scanMatches.simps)
  then show ?case
  proof cases
    case 1
    with "2.prems"(1) show ?thesis by simp
  next
    case 2
    have "\<And>m'. fst (execLocalized s lastIndex) = Some m' \<Longrightarrow>
             alpha3RegexTest (fst m') s \<and> fst m' \<in> alpha3Codes"
    proof -
      fix m' assume a: "fst (execLocalized s lastIndex) = Some m'"
      obtain code cap where m': "m' = (code, cap)" by (cases m')
      from a m' have "execLocalized s lastIndex = (Some (code, cap), snd (execLocalized s lastIndex))"
        by (metis prod.collapse)
      from execLocalized_alpha3 [OF this] m'
      show "alpha3RegexTest (fst m') s \<and> fst m' \<in> alpha3Codes" by simp
    qed
    from "2.IH" [OF this 2] show ?thesis .
  qed
qed

lemma scanMatches_alpha3:
  assumes "m \<in> set (scanMatches s (execLocalized s li))"
  shows "alpha3RegexTest (fst m) s \<and> fst m \<in> alpha3Codes"
proof (rule scanMatches_alpha3_gen [OF _ assms])
  fix m' assume a: "fst (execLocalized s li) = Some m'"
  obtain code cap where m': "m' = (code, cap)" by (cases m')
  from a m' have "execLocalized s li = (Some (code, cap), snd (execLocalized s li))"
    by (metis prod.collapse)
  from execLocalized_alpha3 [OF this] m'
  show "alpha3RegexTest (fst m') s \<and> fst m' \<in> alpha3Codes" by simp
qed

text \<open>The country codes behind the rows of one station, in the rows' order.\<close>

definition stationCodes :: "'a evseData_scheme \<Rightarrow> string list" where
  "stationCodes data =
     (case EnAdditionalInfo data of
        None \<Rightarrow> []
      | Some s \<Rightarrow>
          if s = [] then []
          else map fst (scanMatches s (execLocalized s 0))
             @ (if \<not> alpha3RegexTest EN_CHARGING_STATION_NAME_ALPHA_3 s
                   \<and> truthyTrimmed (EnChargingStationName data)
                then [EN_CHARGING_STATION_NAME_ALPHA_3] else [])
             @ (if \<not> alpha3RegexTest CHARGING_STATION_NAME_ALPHA_3 s
                   \<and> truthyTrimmed (ChargingStationName data)
                then [CHARGING_STATION_NAME_ALPHA_3] else []))"

lemma stationRows_keys:
  "map trKey (stationRows lk data) =
     map (\<lambda>c. (EvseId data, languageCodeOf lk c)) (stationCodes data)"
  by (simp add: stationRows_def stationCodes_def backfillRows_def scannedRow_def trKey_def
      split: option.splits)

lemma anchors_alpha3:
  "EN_CHARGING_STATION_NAME_ALPHA_3 \<in> alpha3Codes" "CHARGING_STATION_NAME_ALPHA_3 \<in> alpha3Codes"
  by (simp_all add: alpha3Codes_def EN_CHARGING_STATION_NAME_ALPHA_3_def
      CHARGING_STATION_NAME_ALPHA_3_def isUpperAZ_def)

lemma stationCodes_alpha3: "set (stationCodes data) \<subseteq> alpha3Codes"
  using scanMatches_alpha3 anchors_alpha3
  by (fastforce simp: stationCodes_def split: option.splits if_splits)

lemma stationCodes_distinct:
  assumes "\<And>s. EnAdditionalInfo data = Some s \<Longrightarrow> distinct (map fst (scanMatches s (execLocalized s 0)))"
  shows "distinct (stationCodes data)"
proof (cases "EnAdditionalInfo data")
  case None
  then show ?thesis by (simp add: stationCodes_def)
next
  case (Some s)
  have ne: "EN_CHARGING_STATION_NAME_ALPHA_3 \<noteq> CHARGING_STATION_NAME_ALPHA_3"
    by (simp add: EN_CHARGING_STATION_NAME_ALPHA_3_def CHARGING_STATION_NAME_ALPHA_3_def)
  have t: "\<And>a. a \<in> fst ` set (scanMatches s (execLocalized s 0)) \<Longrightarrow> alpha3RegexTest a s"
    using scanMatches_alpha3 [of _ s 0] by auto
  from assms [OF Some] Some ne t show ?thesis
    by (auto simp: stationCodes_def)
qed

lemma stationRows_evseId: "r \<in> set (stationRows lk data) \<Longrightarrow> evseId r = EvseId data"
  by (auto simp: stationRows_def backfillRows_def scannedRow_def split: option.splits if_splits)

lemma concat_rows_distinct:
  assumes "distinct (map EvseId evseData)"
    and "\<And>d. d \<in> set evseData \<Longrightarrow> distinct (map trKey (stationRows lk d))"
  shows "distinct (map trKey (concat (map (stationRows lk) evseData)))"
  using assms
proof (induction evseData)
  case Nil
  show ?case by simp
next
  case (Cons d ds)
  have "trKey r \<noteq> trKey r'"
    if r: "r \<in> set (stationRows lk d)" and d': "d' \<in> set ds"
      and r': "r' \<in> set (stationRows lk d')" for r r' d'
  proof
    assume k: "trKey r = trKey r'"
    from k stationRows_evseId [OF r] stationRows_evseId [OF r'] have "EvseId d = EvseId d'"
      by (simp add: trKey_def)
    with d' Cons.prems(1) show False by auto
  qed
  then have "trKey ` set (stationRows lk d) \<inter> trKey ` (\<Union>x\<in>set ds. set (stationRows lk x)) = {}"
    by blast
  with Cons show ?case by simp
qed


subsection \<open>The claims about the extraction\<close>

text \<open>
  C2. The claim: a station without a packed field yields no scanned row but still a
  backfill row for each anchor whose name field is non-blank. The code returns from the
  loop body as soon as \<^verbatim>\<open>EnAdditionalInfo\<close> is falsy, before the two backfill rules
  are reached: the station below has both names and no packed field, and yields no row
  at all.
\<close>

theorem absent_packed_field_no_backfill:
  "truthyTrimmed (EnChargingStationName noPackedFieldStation)
   \<and> truthyTrimmed (ChargingStationName noPackedFieldStation)
   \<and> EnAdditionalInfo noPackedFieldStation = None
   \<and> getInternationalData exampleLookup [noPackedFieldStation] = Inr []"
  by (simp add: getInternationalData_rows stationRows_def noPackedFieldStation_def)
    code_simp

text \<open>
  C5. The extraction leaves no residue. The loop over any station list, started with a
  fresh expression, ends with \<^verbatim>\<open>lastIndex\<close> 0; run again on the same list with the
  state the first run left, it pushes the same promises and \<^verbatim>\<open>Promise.all\<close> gives
  the same outcome as \<^verbatim>\<open>getInternationalData\<close>; and the promises of a list are those
  of its first part followed by those of the rest, so no station alters the rows of a
  later one. Equal row lists are equal multisets.
\<close>

theorem extraction_leaves_no_residue:
  fixes evseData before later :: "'a evseData_scheme list"
  shows "snd (internationalLoop lk evseData ([], 0)) = 0
   \<and> internationalLoop lk evseData ([], snd (internationalLoop lk evseData ([], 0)))
       = internationalLoop lk evseData ([], 0)
   \<and> promise_all (fst (internationalLoop lk evseData
                          ([], snd (internationalLoop lk evseData ([], 0)))))
       = getInternationalData lk evseData
   \<and> fst (internationalLoop lk (before @ later) ([], 0))
       = fst (internationalLoop lk before ([], 0)) @ fst (internationalLoop lk later ([], 0))"
proof -
  have fresh: "internationalLoop lk ds ([], 0) = (map Inr (concat (map (stationRows lk) ds)), 0)"
    for ds :: "'a evseData_scheme list"
    using internationalLoop_rows [of lk ds "[]"] by simp
  show ?thesis by (simp add: fresh getInternationalData_def)
qed

theorem extraction_leaves_no_residue_witness:
  "snd (internationalLoop exampleLookup [exampleStation, duplicateSegmentStation] ([], 0)) = 0
   \<and> fst (internationalLoop exampleLookup ([exampleStation] @ [duplicateSegmentStation]) ([], 0))
       = fst (internationalLoop exampleLookup [exampleStation] ([], 0))
         @ fst (internationalLoop exampleLookup [duplicateSegmentStation] ([], 0))"
  using extraction_leaves_no_residue [where lk = exampleLookup
      and evseData = "[exampleStation, duplicateSegmentStation]"
      and before = "[exampleStation]" and later = "[duplicateSegmentStation]"]
  by simp

text \<open>
  C6. The claim: no two emitted rows share station id and language code. It fails: a
  packed field with two segments of one country code yields two rows with one key.
\<close>

theorem duplicate_segment_counterexample:
  "getInternationalData exampleLookup [duplicateSegmentStation] =
     Inr [\<lparr>evseId = ''DE*TBA*E1234'', chargingStationName = None, languageCode = ''de'',
            additionalInfo = Some ''a''\<rparr>,
          \<lparr>evseId = ''DE*TBA*E1234'', chargingStationName = None, languageCode = ''de'',
            additionalInfo = Some ''b''\<rparr>]
   \<and> \<not> distinct (map trKey
        [\<lparr>evseId = ''DE*TBA*E1234'', chargingStationName = None, languageCode = ''de'',
            additionalInfo = Some ''a''\<rparr>,
         \<lparr>evseId = ''DE*TBA*E1234'', chargingStationName = None, languageCode = ''de'',
            additionalInfo = Some ''b''\<rparr>])"
  by code_simp

lemma distinct_map_Pair: "distinct (map (\<lambda>c. (a, f c)) xs) = distinct (map f xs)"
proof -
  have "map (\<lambda>c. (a, f c)) xs = map (Pair a) (map f xs)" by simp
  moreover have "inj_on (Pair a) (set (map f xs))" by (simp add: inj_on_def)
  ultimately show ?thesis by (simp only: distinct_map) simp
qed

lemma stationRows_distinct_iff:
  "distinct (map trKey (stationRows lk data)) =
   distinct (map (languageCodeOf lk) (stationCodes data))"
  by (simp only: stationRows_keys distinct_map_Pair)

lemma concat_rows_distinct_station:
  assumes "distinct (map trKey (concat (map (stationRows lk) evseData)))"
    and "d \<in> set evseData"
  shows "distinct (map trKey (stationRows lk d))"
  using assms
proof (induction evseData)
  case Nil
  then show ?case by simp
next
  case (Cons x xs)
  from Cons.prems(1) have a: "distinct (map trKey (stationRows lk x))"
    and b: "distinct (map trKey (concat (map (stationRows lk) xs)))"
    by simp_all
  from Cons.prems(2) consider "d = x" | "d \<in> set xs" by auto
  then show ?case
  proof cases
    case 1
    with a show ?thesis by simp
  next
    case 2
    from Cons.IH [OF b 2] show ?thesis .
  qed
qed

text \<open>
  C6, amended. For a station list with pairwise distinct station ids, the emitted rows
  are unique per station id and language code exactly when, for every station, the
  country codes behind its rows (those of the scanned segments, then those of the
  backfilled anchors) are mapped to pairwise different language codes. Two countries
  may share a language as long as no single station has a row for both.
\<close>

theorem rows_unique_per_station_and_language:
  assumes "distinct (map EvseId evseData)"
    and "getInternationalData lk evseData = Inr rows"
  shows "distinct (map trKey rows) \<longleftrightarrow>
         (\<forall>d \<in> set evseData. distinct (map (languageCodeOf lk) (stationCodes d)))"
proof
  assume u: "distinct (map trKey rows)"
  from assms(2) have rows: "rows = concat (map (stationRows lk) evseData)"
    by (simp add: getInternationalData_rows)
  show "\<forall>d \<in> set evseData. distinct (map (languageCodeOf lk) (stationCodes d))"
  proof
    fix d assume "d \<in> set evseData"
    with u rows have "distinct (map trKey (stationRows lk d))"
      using concat_rows_distinct_station [of lk evseData d] by simp
    then show "distinct (map (languageCodeOf lk) (stationCodes d))"
      by (simp only: stationRows_distinct_iff)
  qed
next
  assume s: "\<forall>d \<in> set evseData. distinct (map (languageCodeOf lk) (stationCodes d))"
  have "distinct (map trKey (stationRows lk d))" if "d \<in> set evseData" for d
    using that s by (simp only: stationRows_distinct_iff)
  from concat_rows_distinct [OF assms(1) this] assms(2) show "distinct (map trKey rows)"
    by (simp add: getInternationalData_rows)
qed

lemma stationCodes_example:
  "stationCodes exampleStation = [''DEU'', ''GBR'', ''FRA'']"
  "stationCodes noPackedFieldStation = []"
  by (simp_all del: alpha3RegexTest.simps
      add: stationCodes_def exampleStation_def noPackedFieldStation_def scanMatches.simps
        execLocalized_example alpha3RegexTest_example
        CHARGING_STATION_NAME_ALPHA_3_def EN_CHARGING_STATION_NAME_ALPHA_3_def)

theorem rows_unique_per_station_and_language_witness:
  "germanLookup ''DEU'' = germanLookup ''AUT''
   \<and> distinct (map trKey
     [\<lparr>evseId = ''DE*TBB*E5678'', chargingStationName = Some ''StationName-DE'',
        languageCode = ''de'', additionalInfo = Some ''Inhalt''\<rparr>,
      \<lparr>evseId = ''DE*TBB*E5678'', chargingStationName = Some ''StationName-EN'',
        languageCode = ''en'', additionalInfo = Some ''Content''\<rparr>,
      \<lparr>evseId = ''DE*TBB*E5678'', chargingStationName = None,
        languageCode = ''FRA'', additionalInfo = Some ''Objet''\<rparr>])"
proof
  show "germanLookup ''DEU'' = germanLookup ''AUT''" by (simp add: germanLookup_def)
next
  have h1: "distinct (map EvseId [exampleStation, noPackedFieldStation])"
    by (simp add: exampleStation_def noPackedFieldStation_def)
  have h2: "getInternationalData germanLookup [exampleStation, noPackedFieldStation] =
     Inr [\<lparr>evseId = ''DE*TBB*E5678'', chargingStationName = Some ''StationName-DE'',
            languageCode = ''de'', additionalInfo = Some ''Inhalt''\<rparr>,
          \<lparr>evseId = ''DE*TBB*E5678'', chargingStationName = Some ''StationName-EN'',
            languageCode = ''en'', additionalInfo = Some ''Content''\<rparr>,
          \<lparr>evseId = ''DE*TBB*E5678'', chargingStationName = None,
            languageCode = ''FRA'', additionalInfo = Some ''Objet''\<rparr>]"
    by code_simp
  have h3: "\<forall>d \<in> set [exampleStation, noPackedFieldStation].
              distinct (map (languageCodeOf germanLookup) (stationCodes d))"
    by (simp add: stationCodes_example languageCodeOf_def germanLookup_def)
  from rows_unique_per_station_and_language [OF h1 h2] h3
  show "distinct (map trKey
     [\<lparr>evseId = ''DE*TBB*E5678'', chargingStationName = Some ''StationName-DE'',
        languageCode = ''de'', additionalInfo = Some ''Inhalt''\<rparr>,
      \<lparr>evseId = ''DE*TBB*E5678'', chargingStationName = Some ''StationName-EN'',
        languageCode = ''en'', additionalInfo = Some ''Content''\<rparr>,
      \<lparr>evseId = ''DE*TBB*E5678'', chargingStationName = None,
        languageCode = ''FRA'', additionalInfo = Some ''Objet''\<rparr>])"
    by (rule iffD2)
qed

section \<open>Sub-operator resolution\<close>

text \<open>
  \<^verbatim>\<open>IOperator\<close>: a row of the operator table (\<^verbatim>\<open>id\<close>, \<^verbatim>\<open>name\<close>, \<^verbatim>\<open>parentId\<close>; the
  fields carry a prefix, \<open>id\<close> being the identity function of HOL).
\<close>

record operator =
  op_id :: string
  op_name :: "string option"
  op_parentId :: "string option"

subsection \<open>The operator-id pattern\<close>

text \<open>
  \<^verbatim>\<open>OPERATOR_ID_REGEX = /([A-Za-z]{2}\*?[A-Za-z0-9]{3})|(\+?[0-9]{1,3}\*[0-9]{3})/\<close>,
  matched the way a backtracking engine does: leftmost start, first alternative first,
  greedy quantifiers giving back one repetition at a time.
\<close>

definition isLetter :: "char \<Rightarrow> bool" where
  "isLetter c = (isUpperAZ c \<or> isLowerAZ c)"

definition isAlnum :: "char \<Rightarrow> bool" where
  "isAlnum c = (isUpperAZ c \<or> isLowerAZ c \<or> isDigit c)"

text \<open>\<^verbatim>\<open>[A-Za-z0-9]{3}\<close> and \<^verbatim>\<open>[0-9]{3}\<close> at the head of a string.\<close>

fun alnum3 :: "string \<Rightarrow> string option" where
  "alnum3 (x # y # z # _) = (if isAlnum x \<and> isAlnum y \<and> isAlnum z then Some [x, y, z] else None)"
| "alnum3 _ = None"

fun digit3 :: "string \<Rightarrow> string option" where
  "digit3 (x # y # z # _) = (if isDigit x \<and> isDigit y \<and> isDigit z then Some [x, y, z] else None)"
| "digit3 _ = None"

text \<open>
  The first alternative at the head of a string: two letters, then the optional star
  (tried with the star first, then without), then three alphanumerics.
\<close>

fun operatorIdAlt1 :: "string \<Rightarrow> string option" where
  "operatorIdAlt1 (a # b # rest) =
     (if isLetter a \<and> isLetter b then
        (case (case rest of
                 c # rest' \<Rightarrow> if c = CHR ''*'' then map_option (\<lambda>m. a # b # c # m) (alnum3 rest')
                              else None
               | [] \<Rightarrow> None) of
           Some m \<Rightarrow> Some m
         | None \<Rightarrow> map_option (\<lambda>m. a # b # m) (alnum3 rest))
      else None)"
| "operatorIdAlt1 _ = None"

text \<open>\<^verbatim>\<open>[0-9]{k}\*[0-9]{3}\<close> at the head of a string, for a fixed number \<open>k\<close> of digits.\<close>

definition digitsStarDigits :: "nat \<Rightarrow> string \<Rightarrow> string option" where
  "digitsStarDigits k s =
     (if k \<le> length s \<and> list_all isDigit (take k s) \<and> take 1 (drop k s) = ''*''
      then map_option (\<lambda>m. take k s @ ''*'' @ m) (digit3 (drop (Suc k) s))
      else None)"

text \<open>\<^verbatim>\<open>[0-9]{1,3}\*[0-9]{3}\<close>: three digits are tried first, then two, then one.\<close>

definition countryDigits :: "string \<Rightarrow> string option" where
  "countryDigits s =
     (case digitsStarDigits 3 s of
        Some m \<Rightarrow> Some m
      | None \<Rightarrow> (case digitsStarDigits 2 s of
                   Some m \<Rightarrow> Some m
                 | None \<Rightarrow> digitsStarDigits 1 s))"

text \<open>The second alternative: the optional plus is tried first, then the match without it.\<close>

definition operatorIdAlt2 :: "string \<Rightarrow> string option" where
  "operatorIdAlt2 s =
     (case (case s of
              c # rest \<Rightarrow> if c = CHR ''+'' then map_option ((#) c) (countryDigits rest) else None
            | [] \<Rightarrow> None) of
        Some m \<Rightarrow> Some m
      | None \<Rightarrow> countryDigits s)"

definition operatorIdAt :: "string \<Rightarrow> string option" where
  "operatorIdAt s = (case operatorIdAlt1 s of Some m \<Rightarrow> Some m | None \<Rightarrow> operatorIdAlt2 s)"

text \<open>
  \<^verbatim>\<open>OPERATOR_ID_REGEX.exec(s)\<close>: no global flag, so no state. The result is the text of
  the leftmost match (element 0 of the match array), or \<open>None\<close> for \<^verbatim>\<open>null\<close>.
\<close>

fun operatorIdExec :: "string \<Rightarrow> string option" where
  "operatorIdExec [] = operatorIdAt []"
| "operatorIdExec (c # cs) =
     (case operatorIdAt (c # cs) of Some m \<Rightarrow> Some m | None \<Rightarrow> operatorIdExec cs)"

subsection \<open>The loop of \<^verbatim>\<open>processPossibleSubOperatorsFromEvseData\<close>\<close>

text \<open>
  The body of \<^verbatim>\<open>evseData.forEach\<close>. Indexing \<^verbatim>\<open>null\<close> with \<^verbatim>\<open>[0]\<close> throws a
  \<^verbatim>\<open>TypeError\<close>. The station record is mutated in place: the step returns the record
  as it is afterwards, and the list of sub-operators pushed so far.
\<close>

definition subOperatorStep ::
  "'a evseData_scheme \<Rightarrow> operator list \<Rightarrow> error + ('a evseData_scheme \<times> operator list)" where
  "subOperatorStep evseData subOperators =
     (case operatorIdExec (EvseId evseData) of
        None \<Rightarrow> Inl TypeError
      | Some possibleSupOperatorId \<Rightarrow>
          if OperatorId evseData \<noteq> possibleSupOperatorId
          then Inr (evseData\<lparr>OperatorId := possibleSupOperatorId\<rparr>,
                    subOperators @ [\<lparr>op_id = possibleSupOperatorId, op_name = None,
                                      op_parentId = Some (OperatorId evseData)\<rparr>])
          else Inr (evseData, subOperators))"

text \<open>
  The loop: the array as it is when the loop ends or throws (the stations before a throw
  are already mutated), and either the error or the sub-operators.
\<close>

fun subOperatorLoop ::
  "'a evseData_scheme list \<Rightarrow> operator list \<Rightarrow> 'a evseData_scheme list \<times> (error + operator list)" where
  "subOperatorLoop [] subOperators = ([], Inr subOperators)"
| "subOperatorLoop (evseData # rest) subOperators =
     (case subOperatorStep evseData subOperators of
        Inl e \<Rightarrow> (evseData # rest, Inl e)
      | Inr (evseData', subOperators') \<Rightarrow>
          (case subOperatorLoop rest subOperators' of
             (rest', r) \<Rightarrow> (evseData' # rest', r)))"

subsection \<open>Facts about the loop\<close>

lemma subOperatorLoop_matching:
  "map (\<lambda>d. operatorIdExec (EvseId d)) evseData = map Some candidates \<Longrightarrow>
   subOperatorLoop evseData subOperators =
     (map2 (\<lambda>d c. if OperatorId d = c then d else d\<lparr>OperatorId := c\<rparr>) evseData candidates,
      Inr (subOperators
        @ concat (map2 (\<lambda>d c. if OperatorId d = c then []
                                else [\<lparr>op_id = c, op_name = None, op_parentId = Some (OperatorId d)\<rparr>])
                    evseData candidates)))"
proof (induction evseData arbitrary: candidates subOperators)
  case Nil
  then show ?case by simp
next
  case (Cons d ds)
  from Cons.prems obtain c cs where cs: "candidates = c # cs"
    and c: "operatorIdExec (EvseId d) = Some c"
    and rest: "map (\<lambda>d. operatorIdExec (EvseId d)) ds = map Some cs"
    by (cases candidates) auto
  show ?case
    by (simp add: cs c subOperatorStep_def Cons.IH [OF rest])
qed

lemma subOperatorLoop_snd_Cons:
  "subOperatorStep x subs = Inr (x', subs') \<Longrightarrow>
   snd (subOperatorLoop (x # xs) subs) = snd (subOperatorLoop xs subs')"
  by (simp split: prod.splits)

lemma subOperatorLoop_malformed:
  "d \<in> set evseData \<Longrightarrow> operatorIdExec (EvseId d) = None \<Longrightarrow>
   snd (subOperatorLoop evseData subOperators) = Inl TypeError"
proof (induction evseData arbitrary: subOperators)
  case Nil
  then show ?case by simp
next
  case (Cons x xs)
  show ?case
  proof (cases "subOperatorStep x subOperators")
    case (Inl e)
    then have "e = TypeError"
      by (auto simp: subOperatorStep_def split: option.splits if_splits)
    with Inl show ?thesis by simp
  next
    case (Inr p)
    obtain x' subs' where p: "p = (x', subs')" by (cases p)
    from Inr have "operatorIdExec (EvseId x) \<noteq> None"
      by (auto simp: subOperatorStep_def split: option.splits)
    with Cons.prems have "d \<in> set xs" by auto
    from Cons.IH [OF this Cons.prems(2)] subOperatorLoop_snd_Cons [of x subOperators x' subs' xs]
      Inr p
    show ?thesis by simp
  qed
qed

lemma subOperatorLoop_frame:
  "subOperatorLoop evseData subOperators = (evseData', r) \<Longrightarrow>
   length evseData' = length evseData \<and>
   (\<forall>i < length evseData. \<exists>c. evseData' ! i = (evseData ! i)\<lparr>OperatorId := c\<rparr>)"
proof (induction evseData arbitrary: subOperators evseData' r)
  case Nil
  then show ?case by simp
next
  case (Cons x xs)
  have self: "\<And>y :: 'a evseData_scheme. \<exists>c. y = y\<lparr>OperatorId := c\<rparr>"
    by (rule_tac x = "OperatorId y" in exI) simp
  show ?case
  proof (cases "subOperatorStep x subOperators")
    case (Inl e)
    with Cons.prems have "evseData' = x # xs" by simp
    then show ?thesis using self by simp
  next
    case (Inr p)
    obtain x' subs' where p: "p = (x', subs')" by (cases p)
    obtain xs' r' where l: "subOperatorLoop xs subs' = (xs', r')"
      by (cases "subOperatorLoop xs subs'")
    from Inr p l Cons.prems have e: "evseData' = x' # xs'" by simp
    from Inr p have x': "\<exists>c. x' = x\<lparr>OperatorId := c\<rparr>"
      using self [of x] by (auto simp: subOperatorStep_def split: option.splits if_splits)
    from Cons.IH [OF l] have len: "length xs' = length xs"
      and el: "\<forall>i < length xs. \<exists>c. xs' ! i = (xs ! i)\<lparr>OperatorId := c\<rparr>" by simp_all
    show ?thesis
    proof (intro conjI allI impI)
      show "length evseData' = length (x # xs)" using e len by simp
    next
      fix i assume "i < length (x # xs)"
      then show "\<exists>c. evseData' ! i = ((x # xs) ! i)\<lparr>OperatorId := c\<rparr>"
        using e x' el by (cases i) simp_all
    qed
  qed
qed

section \<open>The import run\<close>

subsection \<open>The feed and the rows\<close>

text \<open>
  \<^verbatim>\<open>IOperatorEvseData\<close>: an operator of the feed with its station records.

  Modelled from the spec: \<^verbatim>\<open>DataImportHelper.getArrayByValue_Array\<close> is not part of the
  sources; the feed is "a list of operators, each with an id, a name, and a list of
  station records", so \<open>EvseDataRecord\<close> holds the list that helper returns.
\<close>

record 'a operatorEvseData =
  OperatorID :: string
  OperatorName :: "string option"
  EvseDataRecord :: "'a evseData_scheme list"

text \<open>
  \<^verbatim>\<open>IEVSE\<close>: a row of the station table. The columns that copy a field of the model's
  station record are spelled out (with a prefix, the translation row having columns of
  the same names); the remaining columns are the extension part.
\<close>

record evse =
  evse_id :: string
  evse_operatorId :: string
  evse_chargingStationName :: "string option"

text \<open>A row of one of the six station-to-enum join tables: station id and enum id.\<close>

type_synonym relation = "string \<times> nat"

datatype relationTable =
  EVSEAuthenticationMode | EVSEChargingFacility | EVSEChargingMode
  | EVSEPaymentOption | EVSEPlug | EVSEValueAddedService

subsection \<open>The destination store\<close>

text \<open>The tables of the destination store, each a list of rows with distinct keys.\<close>

record 'r database =
  Operator :: "operator list"
  EVSE :: "'r evse_scheme list"
  EVSE_tr :: "evse_tr list"
  EVSERelation :: "(relationTable \<times> relation) list"

text \<open>
  The writes of a run, one name for each place the importer issues a write. A write can
  fail for reasons outside the importer; which writes fail is a parameter of the model.
\<close>

datatype writeStep =
  OperatorDelete | OperatorInsert | EvseDelete | SubOperatorInsert | EvseInsert
  | EvseTrInsert | RelationInsert relationTable

text \<open>
  A database operation: from the store it runs against to the outcome of its promise and
  the store afterwards.
\<close>

type_synonym 'db action = "'db \<Rightarrow> unit promise \<times> 'db"

definition andThen :: "'db action \<Rightarrow> 'db action \<Rightarrow> 'db action" where
  "andThen a b db = (case a db of (Inl e, db') \<Rightarrow> (Inl e, db') | (Inr _, db') \<Rightarrow> b db')"

text \<open>
  Modelled from the spec: the persistence collaborator (knex, with the \<^verbatim>\<open>insertOrUpdate\<close>
  extension of \<^verbatim>\<open>../bookshelf\<close>) is not part of the sources. Per destination table it
  "exposes delete all rows and bulk insert, updating on primary-key conflict", and it
  "supports grouping a sequence of such operations into one atomic transaction".
\<close>

fun upsert :: "('row \<Rightarrow> 'key) \<Rightarrow> 'row \<Rightarrow> 'row list \<Rightarrow> 'row list" where
  "upsert key r [] = [r]"
| "upsert key r (x # xs) = (if key x = key r then r # xs else x # upsert key r xs)"

definition insertOrUpdateRows :: "('row \<Rightarrow> 'key) \<Rightarrow> 'row list \<Rightarrow> 'row list \<Rightarrow> 'row list" where
  "insertOrUpdateRows key rows table = fold (upsert key) rows table"

definition insertOrUpdate ::
  "bool \<Rightarrow> (('row list \<Rightarrow> 'row list) \<Rightarrow> 'db \<Rightarrow> 'db) \<Rightarrow> ('row \<Rightarrow> 'key) \<Rightarrow> 'row list \<Rightarrow> 'db action" where
  "insertOrUpdate failing table_update key rows trx =
     (if failing then (Inl PersistenceFailure, trx)
      else (Inr (), table_update (insertOrUpdateRows key rows) trx))"

definition deleteAll :: "bool \<Rightarrow> ('db \<Rightarrow> 'db) \<Rightarrow> 'db action" where
  "deleteAll failing emptied trx =
     (if failing then (Inl PersistenceFailure, trx) else (Inr (), emptied trx))"

text \<open>
  Modelled from the spec: \<^verbatim>\<open>bookshelf.knex.transaction\<close>. The callback runs against a
  working copy of the store; when its promise is fulfilled the copy is committed, when it
  is rejected the copy is dropped and the store stays as it was.
\<close>

definition transaction :: "'db action \<Rightarrow> 'db action" where
  "transaction callback db =
     (case callback db of (Inl e, trx) \<Rightarrow> (Inl e, db) | (Inr _, trx) \<Rightarrow> (Inr (), trx))"

subsection \<open>The operator phase\<close>

definition mapOperatorDataToOperators :: "'a operatorEvseData list \<Rightarrow> operator list" where
  "mapOperatorDataToOperators operatorData =
     map (\<lambda>data. \<lparr>op_id = OperatorID data, op_name = OperatorName data, op_parentId = None\<rparr>)
       operatorData"

definition processOperatorData ::
  "(writeStep \<Rightarrow> bool) \<Rightarrow> 'a operatorEvseData list \<Rightarrow> 'r database action" where
  "processOperatorData fails operatorData =
     (let operators = mapOperatorDataToOperators operatorData
      in transaction
           (andThen (deleteAll (fails OperatorDelete) (Operator_update (\<lambda>_. [])))
                    (insertOrUpdate (fails OperatorInsert) Operator_update op_id operators)))"

subsection \<open>The station phase\<close>

text \<open>\<^verbatim>\<open>retrieveEvseDataFromOperatorData\<close>: each record gets its operator's id.\<close>

definition retrieveEvseDataFromOperatorData ::
  "'a operatorEvseData list \<Rightarrow> 'a evseData_scheme list" where
  "retrieveEvseDataFromOperatorData operatorData =
     fold (\<lambda>operatorData evseData.
             evseData @ map (\<lambda>evseData. evseData\<lparr>OperatorId := OperatorID operatorData\<rparr>)
                          (EvseDataRecord operatorData))
          operatorData []"

text \<open>
  \<^verbatim>\<open>clearData\<close>: \<^verbatim>\<open>trx('EVSE').delete()\<close>, which "removes all EVSE data including their
  relational data": the translation and join rows go with the stations.
\<close>

definition clearData :: "(writeStep \<Rightarrow> bool) \<Rightarrow> 'r database action" where
  "clearData fails =
     deleteAll (fails EvseDelete) (\<lambda>trx. trx\<lparr>EVSE := [], EVSE_tr := [], EVSERelation := []\<rparr>)"

text \<open>
  \<^verbatim>\<open>processPossibleSubOperatorsFromEvseData\<close>: the loop, then the insert of the
  sub-operators. A throw in the loop rejects the promise before any write is issued. The
  first component is the station array as the function leaves it.
\<close>

definition processPossibleSubOperatorsFromEvseData ::
  "(writeStep \<Rightarrow> bool) \<Rightarrow> 'a evseData_scheme list \<Rightarrow> 'r database
     \<Rightarrow> 'a evseData_scheme list \<times> (unit promise \<times> 'r database)" where
  "processPossibleSubOperatorsFromEvseData fails evseData trx =
     (case subOperatorLoop evseData [] of
        (evseData', Inl e) \<Rightarrow> (evseData', (Inl e, trx))
      | (evseData', Inr subOperators) \<Rightarrow>
          (evseData', insertOrUpdate (fails SubOperatorInsert) Operator_update op_id subOperators trx))"

text \<open>
  \<^verbatim>\<open>mapEvseDataToEvses\<close>. The columns computed from fields outside the model's station
  record (address, coordinates, flags; with helpers of \<^verbatim>\<open>DataImportHelper\<close>) are the
  parameter \<open>otherColumns\<close>, which may throw (a record without \<^verbatim>\<open>Address\<close>).
\<close>

fun mapEvseDataToEvses ::
  "('a evseData_scheme \<Rightarrow> error + 'r) \<Rightarrow> 'a evseData_scheme list \<Rightarrow> error + 'r evse_scheme list" where
  "mapEvseDataToEvses otherColumns [] = Inr []"
| "mapEvseDataToEvses otherColumns (evseData # rest) =
     (case otherColumns evseData of
        Inl e \<Rightarrow> Inl e
      | Inr other \<Rightarrow>
          (case mapEvseDataToEvses otherColumns rest of
             Inl e \<Rightarrow> Inl e
           | Inr evses \<Rightarrow>
               Inr (\<lparr>evse_id = EvseId evseData, evse_operatorId = OperatorId evseData,
                     evse_chargingStationName = ChargingStationName evseData, \<dots> = other\<rparr>
                    # evses)))"

definition processInternationalData ::
  "(writeStep \<Rightarrow> bool) \<Rightarrow> lookup \<Rightarrow> 'a evseData_scheme list \<Rightarrow> 'r database action" where
  "processInternationalData fails lk evseData trx =
     (case getInternationalData lk evseData of
        Inl e \<Rightarrow> (Inl e, trx)
      | Inr evseTrs \<Rightarrow> insertOrUpdate (fails EvseTrInsert) EVSE_tr_update trKey evseTrs trx)"

text \<open>
  \<^verbatim>\<open>processEVSERelationalData\<close>. The join rows of each table come from helpers of
  \<^verbatim>\<open>DataImportHelper\<close>, the parameter \<open>relations\<close>. The six inserts are issued together,
  each only for a non-empty list; \<^verbatim>\<open>Promise.all\<close> is rejected when one of them is.
\<close>

definition relationInsert ::
  "(writeStep \<Rightarrow> bool) \<Rightarrow> (relationTable \<Rightarrow> relation list) \<Rightarrow> relationTable
     \<Rightarrow> unit promise list \<times> 'r database \<Rightarrow> unit promise list \<times> 'r database" where
  "relationInsert fails rows table st =
     (case st of (outcomes, trx) \<Rightarrow>
        if rows table = [] then (outcomes @ [Inr ()], trx)
        else (case insertOrUpdate (fails (RelationInsert table)) EVSERelation_update id
                     (map (Pair table) (rows table)) trx of
                (outcome, trx') \<Rightarrow> (outcomes @ [outcome], trx')))"

definition processEVSERelationalData ::
  "(writeStep \<Rightarrow> bool) \<Rightarrow> (relationTable \<Rightarrow> 'a evseData_scheme list \<Rightarrow> relation list)
     \<Rightarrow> 'a evseData_scheme list \<Rightarrow> 'r database action" where
  "processEVSERelationalData fails relations evseData trx =
     (case fold (relationInsert fails (\<lambda>table. relations table evseData))
             [EVSEAuthenticationMode, EVSEChargingFacility, EVSEChargingMode,
              EVSEPaymentOption, EVSEPlug, EVSEValueAddedService]
             ([], trx) of
        (outcomes, trx') \<Rightarrow>
          (case promise_all outcomes of Inl e \<Rightarrow> (Inl e, trx') | Inr _ \<Rightarrow> (Inr (), trx')))"

text \<open>
  The callback \<^verbatim>\<open>(trx) => ...\<close> that \<^verbatim>\<open>processEvseData\<close> hands to the transaction:
  it clears the station tables, resolves and stores the sub-operators, stores the
  stations (mapped from the records as the resolution left them), the translations and
  the join rows. A rejected step skips the steps after it.
\<close>

definition stationPhase ::
  "(writeStep \<Rightarrow> bool) \<Rightarrow> lookup \<Rightarrow> ('a evseData_scheme \<Rightarrow> error + 'r)
     \<Rightarrow> (relationTable \<Rightarrow> 'a evseData_scheme list \<Rightarrow> relation list)
     \<Rightarrow> 'a evseData_scheme list \<Rightarrow> 'r database action" where
  "stationPhase fails lk otherColumns relations evseData trx =
     (case clearData fails trx of
        (Inl e, trx1) \<Rightarrow> (Inl e, trx1)
      | (Inr _, trx1) \<Rightarrow>
          (case processPossibleSubOperatorsFromEvseData fails evseData trx1 of
             (evseData', (Inl e, trx2)) \<Rightarrow> (Inl e, trx2)
           | (evseData', (Inr _, trx2)) \<Rightarrow>
               andThen
                 (\<lambda>trx. case mapEvseDataToEvses otherColumns evseData' of
                           Inl e \<Rightarrow> (Inl e, trx)
                         | Inr evses \<Rightarrow>
                             insertOrUpdate (fails EvseInsert) EVSE_update evse_id evses trx)
                 (andThen (processInternationalData fails lk evseData')
                          (processEVSERelationalData fails relations evseData'))
                 trx2))"

text \<open>\<^verbatim>\<open>processEvseData\<close>: the station records are retrieved, then the transaction runs.\<close>

definition processEvseData ::
  "(writeStep \<Rightarrow> bool) \<Rightarrow> lookup \<Rightarrow> ('a evseData_scheme \<Rightarrow> error + 'r)
     \<Rightarrow> (relationTable \<Rightarrow> 'a evseData_scheme list \<Rightarrow> relation list)
     \<Rightarrow> 'a operatorEvseData list \<Rightarrow> 'r database action" where
  "processEvseData fails lk otherColumns relations operatorData =
     (let evseData = retrieveEvseDataFromOperatorData operatorData
      in transaction (stationPhase fails lk otherColumns relations evseData))"

text \<open>
  \<^verbatim>\<open>execute\<close>: the enum catalogs are loaded (\<open>loadDependentData\<close> is the outcome of that
  promise), then the operator phase and the station phase run, each in its transaction.
\<close>

definition execute ::
  "unit promise \<Rightarrow> (writeStep \<Rightarrow> bool) \<Rightarrow> lookup \<Rightarrow> ('a evseData_scheme \<Rightarrow> error + 'r)
     \<Rightarrow> (relationTable \<Rightarrow> 'a evseData_scheme list \<Rightarrow> relation list)
     \<Rightarrow> 'a operatorEvseData list \<Rightarrow> 'r database action" where
  "execute loadDependentData fails lk otherColumns relations operatorData db =
     (case loadDependentData of
        Inl e \<Rightarrow> (Inl e, db)
      | Inr _ \<Rightarrow>
          andThen (processOperatorData fails operatorData)
                  (processEvseData fails lk otherColumns relations operatorData) db)"

subsection \<open>Example feed and store\<close>

definition exampleFeed :: "unit operatorEvseData list" where
  "exampleFeed =
     [\<lparr>OperatorID = ''DE*TBA'', OperatorName = Some ''Operator A'',
       EvseDataRecord = [exampleStation\<lparr>OperatorId := []\<rparr>, noPackedFieldStation\<lparr>OperatorId := []\<rparr>]\<rparr>]"

definition exampleStore :: "unit database" where
  "exampleStore =
     \<lparr>Operator = [\<lparr>op_id = ''DE*OLD'', op_name = Some ''Old operator'', op_parentId = None\<rparr>],
      EVSE = [\<lparr>evse_id = ''DE*OLD*E1'', evse_operatorId = ''DE*OLD'',
               evse_chargingStationName = None\<rparr>],
      EVSE_tr = [\<lparr>evseId = ''DE*OLD*E1'', chargingStationName = Some ''Old'',
                  languageCode = ''en'', additionalInfo = None\<rparr>],
      EVSERelation = [(EVSEPlug, (''DE*OLD*E1'', 1))]\<rparr>"

definition malformedStation :: evseData where
  "malformedStation =
     \<lparr>EvseId = ''1234'', OperatorId = ''DE*TBA'',
      ChargingStationName = None, EnChargingStationName = None, EnAdditionalInfo = None\<rparr>"

definition noFailure :: "writeStep \<Rightarrow> bool" where
  "noFailure w = False"

definition noOtherColumns :: "evseData \<Rightarrow> error + unit" where
  "noOtherColumns evseData = Inr ()"

definition exampleRelations :: "relationTable \<Rightarrow> evseData list \<Rightarrow> relation list" where
  "exampleRelations table evseData =
     (if table = EVSEPlug then map (\<lambda>d. (EvseId d, 2)) evseData else [])"

section \<open>Properties of the run\<close>

lemma transaction_rollback: "fst (transaction callback db) = Inl e \<Longrightarrow> snd (transaction callback db) = db"
  by (auto simp: transaction_def split: prod.splits sum.splits)

lemma processEvseData_rollback:
  "fst (processEvseData fails lk otherColumns relations operatorData db) = Inl e \<Longrightarrow>
   snd (processEvseData fails lk otherColumns relations operatorData db) = db"
  unfolding processEvseData_def Let_def by (rule transaction_rollback)

lemma processOperatorData_success:
  "processOperatorData fails operatorData db = (Inr u, db1) \<Longrightarrow>
   db1 = db\<lparr>Operator := insertOrUpdateRows op_id (mapOperatorDataToOperators operatorData) []\<rparr>"
  by (auto simp: processOperatorData_def transaction_def andThen_def deleteAll_def
      insertOrUpdate_def split: if_splits)

lemma set_upsert: "set (upsert key r t) \<subseteq> insert r (set t)"
  by (induction t) auto

lemma keys_upsert: "key ` set (upsert key r t) = insert (key r) (key ` set t)"
  by (induction t) auto

lemma set_insertOrUpdateRows: "set (insertOrUpdateRows key rows t) \<subseteq> set rows \<union> set t"
  unfolding insertOrUpdateRows_def
proof (induction rows arbitrary: t)
  case Nil
  show ?case by simp
next
  case (Cons r rs)
  from Cons.IH [of "upsert key r t"] set_upsert [of key r t] show ?case by auto
qed

lemma keys_insertOrUpdateRows:
  "key ` set (insertOrUpdateRows key rows t) = key ` set rows \<union> key ` set t"
  unfolding insertOrUpdateRows_def
proof (induction rows arbitrary: t)
  case Nil
  show ?case by simp
next
  case (Cons r rs)
  from Cons.IH [of "upsert key r t"] show ?case by (simp add: keys_upsert)
qed

lemma retrieve_fold:
  "fold (\<lambda>operatorData evseData.
             evseData @ map (\<lambda>evseData. evseData\<lparr>OperatorId := OperatorID operatorData\<rparr>)
                          (EvseDataRecord operatorData)) ods acc =
   acc @ concat (map (\<lambda>od. map (\<lambda>d. d\<lparr>OperatorId := OperatorID od\<rparr>) (EvseDataRecord od)) ods)"
  by (induction ods arbitrary: acc) simp_all

lemma retrieve_concat:
  "retrieveEvseDataFromOperatorData ods =
   concat (map (\<lambda>od. map (\<lambda>d. d\<lparr>OperatorId := OperatorID od\<rparr>) (EvseDataRecord od)) ods)"
  by (simp add: retrieveEvseDataFromOperatorData_def retrieve_fold)

lemma retrieve_OperatorId:
  "d \<in> set (retrieveEvseDataFromOperatorData ods) \<Longrightarrow> OperatorId d \<in> OperatorID ` set ods"
  by (auto simp: retrieve_concat)

lemma subOperatorLoop_success_candidates:
  "subOperatorLoop evseData subs0 = (evseData', Inr subs) \<Longrightarrow>
   \<exists>candidates. map (\<lambda>d. operatorIdExec (EvseId d)) evseData = map Some candidates"
proof -
  assume a: "subOperatorLoop evseData subs0 = (evseData', Inr subs)"
  have "\<forall>d \<in> set evseData. operatorIdExec (EvseId d) \<noteq> None"
  proof (intro ballI notI)
    fix d assume "d \<in> set evseData" "operatorIdExec (EvseId d) = None"
    from subOperatorLoop_malformed [OF this, of subs0] a show False by simp
  qed
  then have "map (\<lambda>d. operatorIdExec (EvseId d)) evseData =
             map Some (map (\<lambda>d. the (operatorIdExec (EvseId d))) evseData)"
    by auto
  then show ?thesis by blast
qed

lemma subOperatorLoop_success_OperatorId:
  assumes "subOperatorLoop evseData subs0 = (evseData', Inr subs)"
    and "d' \<in> set evseData'"
  shows "OperatorId d' \<in> OperatorId ` set evseData \<union> op_id ` set subs"
proof -
  from subOperatorLoop_success_candidates [OF assms(1)] obtain cs
    where cs: "map (\<lambda>d. operatorIdExec (EvseId d)) evseData = map Some cs" by blast
  from subOperatorLoop_matching [OF cs, of subs0] assms(1)
  have e: "evseData' = map2 (\<lambda>d c. if OperatorId d = c then d else d\<lparr>OperatorId := c\<rparr>) evseData cs"
    and s: "subs = subs0 @ concat (map2 (\<lambda>d c. if OperatorId d = c then []
                  else [\<lparr>op_id = c, op_name = None, op_parentId = Some (OperatorId d)\<rparr>]) evseData cs)"
    by simp_all
  from assms(2) e obtain d c where dc: "(d, c) \<in> set (zip evseData cs)"
    and d': "d' = (if OperatorId d = c then d else d\<lparr>OperatorId := c\<rparr>)"
    by auto
  show ?thesis
  proof (cases "OperatorId d = c")
    case True
    with d' dc show ?thesis by (auto dest: set_zip_leftD)
  next
    case False
    with dc have "\<lparr>op_id = c, op_name = None, op_parentId = Some (OperatorId d)\<rparr> \<in> set subs"
      unfolding s by force
    then have "c \<in> op_id ` set subs" by force
    with False d' show ?thesis by simp
  qed
qed

lemma mapEvseDataToEvses_operatorIds:
  "mapEvseDataToEvses otherColumns evseData = Inr evses \<Longrightarrow>
   map evse_operatorId evses = map OperatorId evseData \<and> map evse_id evses = map EvseId evseData"
  by (induction evseData arbitrary: evses) (auto split: sum.splits)

lemma processInternationalData_frame:
  "processInternationalData fails lk evseData trx = (outcome, trx') \<Longrightarrow>
   EVSE trx' = EVSE trx \<and> Operator trx' = Operator trx"
  by (auto simp: processInternationalData_def insertOrUpdate_def split: sum.splits if_splits)

lemma relationInsert_frame:
  "EVSE (snd (relationInsert fails rows table st)) = EVSE (snd st) \<and>
   Operator (snd (relationInsert fails rows table st)) = Operator (snd st)"
  by (cases st) (simp add: relationInsert_def insertOrUpdate_def)

lemma relationInsert_fold_frame:
  "EVSE (snd (fold (relationInsert fails rows) tables st)) = EVSE (snd st) \<and>
   Operator (snd (fold (relationInsert fails rows) tables st)) = Operator (snd st)"
  by (induction tables arbitrary: st) (simp_all add: relationInsert_frame)

lemma processEVSERelationalData_frame:
  "processEVSERelationalData fails relations evseData trx = (outcome, trx') \<Longrightarrow>
   EVSE trx' = EVSE trx \<and> Operator trx' = Operator trx"
proof -
  assume a: "processEVSERelationalData fails relations evseData trx = (outcome, trx')"
  let ?f = "fold (relationInsert fails (\<lambda>table. relations table evseData))
             [EVSEAuthenticationMode, EVSEChargingFacility, EVSEChargingMode,
              EVSEPaymentOption, EVSEPlug, EVSEValueAddedService] ([], trx)"
  have fr: "EVSE (snd ?f) = EVSE (snd ([] :: unit promise list, trx)) \<and>
            Operator (snd ?f) = Operator (snd ([] :: unit promise list, trx))"
    by (rule relationInsert_fold_frame)
  from a have t: "trx' = snd ?f"
    unfolding processEVSERelationalData_def by (auto split: prod.splits sum.splits)
  show ?thesis unfolding t using fr by (simp only: snd_conv)
qed

lemma processEvseData_success:
  assumes "processEvseData fails lk otherColumns relations operatorData db1 = (Inr u, db')"
  shows "\<exists>evseData' subOperators evses.
           subOperatorLoop (retrieveEvseDataFromOperatorData operatorData) [] =
             (evseData', Inr subOperators)
           \<and> mapEvseDataToEvses otherColumns evseData' = Inr evses
           \<and> Operator db' = insertOrUpdateRows op_id subOperators (Operator db1)
           \<and> EVSE db' = insertOrUpdateRows evse_id evses []"
proof -
  let ?ds = "retrieveEvseDataFromOperatorData operatorData"
  from assms have cb: "stationPhase fails lk otherColumns relations ?ds db1 = (Inr (), db')"
    unfolding processEvseData_def Let_def transaction_def
    by (simp split: prod.splits sum.splits)
  obtain o1 trx1 where c1: "clearData fails db1 = (o1, trx1)" by (cases "clearData fails db1")
  from cb c1 have o1: "o1 = Inr ()" by (cases o1) (auto simp: stationPhase_def)
  from c1 o1 have trx1: "trx1 = db1\<lparr>EVSE := [], EVSE_tr := [], EVSERelation := []\<rparr>"
    by (auto simp: clearData_def deleteAll_def split: if_splits)
  obtain ds' o2 trx2 where c2: "processPossibleSubOperatorsFromEvseData fails ?ds trx1 = (ds', (o2, trx2))"
    by (cases "processPossibleSubOperatorsFromEvseData fails ?ds trx1") auto
  from cb c1 o1 c2 have o2: "o2 = Inr ()" by (cases o2) (auto simp: stationPhase_def)
  from c2 o2 obtain subs where l: "subOperatorLoop ?ds [] = (ds', Inr subs)"
    and trx2: "trx2 = trx1\<lparr>Operator := insertOrUpdateRows op_id subs (Operator trx1)\<rparr>"
    by (auto simp: processPossibleSubOperatorsFromEvseData_def insertOrUpdate_def
        split: prod.splits sum.splits if_splits)
  let ?ins = "\<lambda>trx. case mapEvseDataToEvses otherColumns ds' of
                                 Inl e \<Rightarrow> (Inl e, trx)
                               | Inr evses \<Rightarrow>
                                   insertOrUpdate (fails EvseInsert) EVSE_update evse_id evses trx"
  obtain o3 trx3 where c3: "?ins trx2 = (o3, trx3)" by (cases "?ins trx2")
  from cb c1 o1 c2 o2 c3 have o3: "o3 = Inr ()" by (cases o3) (auto simp: stationPhase_def andThen_def)
  from c3 o3 obtain evses where m: "mapEvseDataToEvses otherColumns ds' = Inr evses"
    and trx3: "trx3 = trx2\<lparr>EVSE := insertOrUpdateRows evse_id evses (EVSE trx2)\<rparr>"
    by (auto simp: insertOrUpdate_def split: sum.splits if_splits)
  obtain o4 trx4 where c4: "processInternationalData fails lk ds' trx3 = (o4, trx4)"
    by (cases "processInternationalData fails lk ds' trx3")
  from cb c1 o1 c2 o2 c3 o3 c4 have o4: "o4 = Inr ()" by (cases o4) (auto simp: stationPhase_def andThen_def)
  from cb c1 o1 c2 o2 c3 o3 c4 o4
  have c5: "processEVSERelationalData fails relations ds' trx4 = (Inr (), db')"
    by (auto simp: stationPhase_def andThen_def)
  from processInternationalData_frame [OF c4] processEVSERelationalData_frame [OF c5]
  have "EVSE db' = EVSE trx3" "Operator db' = Operator trx3" by simp_all
  with trx3 trx2 trx1 have "Operator db' = insertOrUpdateRows op_id subs (Operator db1)"
    "EVSE db' = insertOrUpdateRows evse_id evses []" by simp_all
  with l m show ?thesis by blast
qed

section \<open>The claims about sub-operators and the run\<close>




text \<open>
  C4. A batch with a station whose identifier does not match the operator-id pattern
  makes the sub-operator processing fail with a \<^verbatim>\<open>TypeError\<close>: the loop throws, the
  promise of \<^verbatim>\<open>processPossibleSubOperatorsFromEvseData\<close> is rejected before any write,
  and (the clear step having succeeded) the station phase is rejected with that error and
  its transaction leaves the store as it was.
\<close>

theorem malformed_identifier_is_fatal:
  fixes trx db :: "'r database" and otherColumns :: "'a evseData_scheme \<Rightarrow> error + 'r"
  assumes "d \<in> set evseData" and "operatorIdExec (EvseId d) = None"
  shows "snd (subOperatorLoop evseData []) = Inl TypeError
   \<and> snd (processPossibleSubOperatorsFromEvseData fails evseData trx) = (Inl TypeError, trx)
   \<and> (\<not> fails EvseDelete \<longrightarrow>
        fst (stationPhase fails lk otherColumns relations evseData trx) = Inl TypeError)
   \<and> (evseData = retrieveEvseDataFromOperatorData operatorData \<and> \<not> fails EvseDelete \<longrightarrow>
        processEvseData fails lk otherColumns relations operatorData db = (Inl TypeError, db))"
proof -
  have l: "snd (subOperatorLoop evseData []) = Inl TypeError"
    by (rule subOperatorLoop_malformed [OF assms])
  have p: "snd (processPossibleSubOperatorsFromEvseData fails evseData t) = (Inl TypeError, t)"
    for t :: "'r database"
    using l by (cases "subOperatorLoop evseData []")
      (simp add: processPossibleSubOperatorsFromEvseData_def)
  have s: "fst (stationPhase fails lk otherColumns relations evseData t) = Inl TypeError"
    if "\<not> fails EvseDelete" for t :: "'r database"
    using that p [of "t\<lparr>EVSE := [], EVSE_tr := [], EVSERelation := []\<rparr>"]
    by (cases "processPossibleSubOperatorsFromEvseData fails evseData
                 (t\<lparr>EVSE := [], EVSE_tr := [], EVSERelation := []\<rparr>)")
      (simp add: stationPhase_def clearData_def deleteAll_def)
  have e: "processEvseData fails lk otherColumns relations operatorData db = (Inl TypeError, db)"
    if "evseData = retrieveEvseDataFromOperatorData operatorData" "\<not> fails EvseDelete"
    using s [OF that(2), of db] that(1)
    by (cases "stationPhase fails lk otherColumns relations evseData db")
      (simp add: processEvseData_def transaction_def)
  from l p s e show ?thesis by blast
qed

theorem malformed_identifier_is_fatal_witness:
  "malformedStation \<in> set [exampleStation, malformedStation]
   \<and> operatorIdExec (EvseId malformedStation) = None
   \<and> snd (subOperatorLoop [exampleStation, malformedStation] []) = Inl TypeError
   \<and> processEvseData ((=) EvseTrInsert) exampleLookup noOtherColumns exampleRelations
        [\<lparr>OperatorID = ''DE*TBA'', OperatorName = None,
          EvseDataRecord = [exampleStation, malformedStation]\<rparr>] exampleStore
      = (Inl TypeError, exampleStore)"
proof -
  have h1: "malformedStation \<in> set [exampleStation, malformedStation]" by simp
  have h2: "operatorIdExec (EvseId malformedStation) = None"
    unfolding malformedStation_def by code_simp
  have h3: "[exampleStation, malformedStation] = retrieveEvseDataFromOperatorData
        [\<lparr>OperatorID = ''DE*TBA'', OperatorName = None,
          EvseDataRecord = [exampleStation, malformedStation]\<rparr>]"
    by (simp add: retrieve_concat exampleStation_def malformedStation_def)
  have h4: "\<not> ((=) EvseTrInsert) EvseDelete" by simp
  from malformed_identifier_is_fatal [OF h1 h2, of "(=) EvseTrInsert" exampleStore exampleLookup
      noOtherColumns exampleRelations _ exampleStore] h1 h2 h3 h4
  show ?thesis by blast
qed

text \<open>
  C10. Sub-operator resolution changes the station records only in \<open>OperatorId\<close>:
  the array it leaves (whether the loop ends or throws) has the length and the order of
  the input, and each record is the input record with some value for \<open>OperatorId\<close>, so
  that the identifier, the names, the packed field and every further field are the same.
  \<^verbatim>\<open>processPossibleSubOperatorsFromEvseData\<close> leaves the array the loop leaves.
\<close>

theorem resolution_changes_only_operator_id:
  "length (fst (subOperatorLoop evseData [])) = length evseData
   \<and> (\<forall>i < length evseData.
         (\<exists>c. fst (subOperatorLoop evseData []) ! i = (evseData ! i)\<lparr>OperatorId := c\<rparr>)
         \<and> EvseId (fst (subOperatorLoop evseData []) ! i) = EvseId (evseData ! i)
         \<and> ChargingStationName (fst (subOperatorLoop evseData []) ! i)
             = ChargingStationName (evseData ! i)
         \<and> EnChargingStationName (fst (subOperatorLoop evseData []) ! i)
             = EnChargingStationName (evseData ! i)
         \<and> EnAdditionalInfo (fst (subOperatorLoop evseData []) ! i)
             = EnAdditionalInfo (evseData ! i)
         \<and> evseData.more (fst (subOperatorLoop evseData []) ! i) = evseData.more (evseData ! i))
   \<and> fst (processPossibleSubOperatorsFromEvseData fails evseData trx)
       = fst (subOperatorLoop evseData [])"
proof -
  obtain out r where l: "subOperatorLoop evseData [] = (out, r)"
    by (cases "subOperatorLoop evseData []")
  from subOperatorLoop_frame [OF l]
  have len: "length out = length evseData"
    and el: "\<forall>i < length evseData. \<exists>c. out ! i = (evseData ! i)\<lparr>OperatorId := c\<rparr>"
    by simp_all
  have p: "fst (processPossibleSubOperatorsFromEvseData fails evseData trx) = out"
    using l by (cases r) (simp_all add: processPossibleSubOperatorsFromEvseData_def)
  have "\<forall>i < length evseData.
         (\<exists>c. out ! i = (evseData ! i)\<lparr>OperatorId := c\<rparr>)
         \<and> EvseId (out ! i) = EvseId (evseData ! i)
         \<and> ChargingStationName (out ! i) = ChargingStationName (evseData ! i)
         \<and> EnChargingStationName (out ! i) = EnChargingStationName (evseData ! i)
         \<and> EnAdditionalInfo (out ! i) = EnAdditionalInfo (evseData ! i)
         \<and> evseData.more (out ! i) = evseData.more (evseData ! i)"
  proof (intro allI impI)
    fix i assume "i < length evseData"
    with el obtain c where "out ! i = (evseData ! i)\<lparr>OperatorId := c\<rparr>" by blast
    then show "(\<exists>c. out ! i = (evseData ! i)\<lparr>OperatorId := c\<rparr>)
         \<and> EvseId (out ! i) = EvseId (evseData ! i)
         \<and> ChargingStationName (out ! i) = ChargingStationName (evseData ! i)
         \<and> EnChargingStationName (out ! i) = EnChargingStationName (evseData ! i)
         \<and> EnAdditionalInfo (out ! i) = EnAdditionalInfo (evseData ! i)
         \<and> evseData.more (out ! i) = evseData.more (evseData ! i)"
      by auto
  qed
  with len p l show ?thesis by simp
qed

theorem resolution_changes_only_operator_id_witness:
  "(0::nat) < length [exampleStation, noPackedFieldStation]
   \<and> length (fst (subOperatorLoop [exampleStation, noPackedFieldStation] [])) = 2
   \<and> EnAdditionalInfo (fst (subOperatorLoop [exampleStation, noPackedFieldStation] []) ! 0)
       = Some ''DEU:Inhalt|||GBR:Content|||FRA:Objet|||''
   \<and> OperatorId (fst (subOperatorLoop [exampleStation, noPackedFieldStation] []) ! 0) = ''DE*TBB''"
proof -
  have h: "(0::nat) < length [exampleStation, noPackedFieldStation]" by simp
  have o: "OperatorId (fst (subOperatorLoop [exampleStation, noPackedFieldStation] []) ! 0) = ''DE*TBB''"
    by code_simp
  from resolution_changes_only_operator_id [of "[exampleStation, noPackedFieldStation]"]
  have "\<forall>i < length [exampleStation, noPackedFieldStation].
          EnAdditionalInfo (fst (subOperatorLoop [exampleStation, noPackedFieldStation] []) ! i)
             = EnAdditionalInfo ([exampleStation, noPackedFieldStation] ! i)"
    and len: "length (fst (subOperatorLoop [exampleStation, noPackedFieldStation] [])) =
           length [exampleStation, noPackedFieldStation]"
    by blast+
  with h have "EnAdditionalInfo (fst (subOperatorLoop [exampleStation, noPackedFieldStation] []) ! 0)
             = EnAdditionalInfo ([exampleStation, noPackedFieldStation] ! 0)" by blast
  with h o len show ?thesis by (simp add: exampleStation_def)
qed



text \<open>
  C9. After a successful run every persisted station row's operator id is the id of a row
  of the persisted operator table; the ids of that table are those of the top-level
  operators mapped from the feed together with those of the sub-operators derived in the
  station phase, and each station's operator id is one of them.
\<close>

theorem station_operator_ids_resolve:
  assumes "execute loadDependentData fails lk otherColumns relations operatorData db = (Inr (), db')"
  shows "\<exists>subOperators.
           snd (subOperatorLoop (retrieveEvseDataFromOperatorData operatorData) []) = Inr subOperators
           \<and> op_id ` set (Operator db') =
               op_id ` set (mapOperatorDataToOperators operatorData) \<union> op_id ` set subOperators
           \<and> (\<forall>station \<in> set (EVSE db').
                 evse_operatorId station \<in>
                   op_id ` set (mapOperatorDataToOperators operatorData) \<union> op_id ` set subOperators
                 \<and> evse_operatorId station \<in> op_id ` set (Operator db'))"
proof -
  let ?tops = "mapOperatorDataToOperators operatorData"
  let ?ds = "retrieveEvseDataFromOperatorData operatorData"
  from assms obtain db1 where p1: "processOperatorData fails operatorData db = (Inr (), db1)"
    and p2: "processEvseData fails lk otherColumns relations operatorData db1 = (Inr (), db')"
    by (auto simp: execute_def andThen_def split: sum.splits prod.splits)
  from processOperatorData_success [OF p1]
  have o1: "Operator db1 = insertOrUpdateRows op_id ?tops []" by simp
  from processEvseData_success [OF p2] obtain ds' subs evses
    where l: "subOperatorLoop ?ds [] = (ds', Inr subs)"
      and m: "mapEvseDataToEvses otherColumns ds' = Inr evses"
      and o2: "Operator db' = insertOrUpdateRows op_id subs (Operator db1)"
      and e2: "EVSE db' = insertOrUpdateRows evse_id evses []"
    by blast
  have tops: "op_id ` set ?tops = OperatorID ` set operatorData"
    by (force simp: mapOperatorDataToOperators_def)
  have ops: "op_id ` set (Operator db') = op_id ` set ?tops \<union> op_id ` set subs"
    unfolding o2 o1 by (simp add: keys_insertOrUpdateRows Un_commute)
  have st: "evse_operatorId station \<in> op_id ` set ?tops \<union> op_id ` set subs"
    if "station \<in> set (EVSE db')" for station
  proof -
    from that e2 set_insertOrUpdateRows [of evse_id evses "[]"] have "station \<in> set evses" by auto
    then have "evse_operatorId station \<in> set (map evse_operatorId evses)" by simp
    with mapEvseDataToEvses_operatorIds [OF m] obtain d' where d': "d' \<in> set ds'"
      and eq: "evse_operatorId station = OperatorId d'" by auto
    have sub: "OperatorId ` set ?ds \<subseteq> OperatorID ` set operatorData"
    proof
      fix x assume "x \<in> OperatorId ` set ?ds"
      then obtain d where "d \<in> set ?ds" "x = OperatorId d" by (rule imageE)
      with retrieve_OperatorId [of d operatorData] show "x \<in> OperatorID ` set operatorData"
        by simp
    qed
    from subOperatorLoop_success_OperatorId [OF l d']
    have "OperatorId d' \<in> OperatorId ` set ?ds \<or> OperatorId d' \<in> op_id ` set subs"
      by (simp only: Un_iff)
    with sub have "OperatorId d' \<in> OperatorID ` set operatorData \<union> op_id ` set subs"
      by (simp only: Un_iff) (metis subsetD)
    with eq tops show ?thesis by simp
  qed
  have st': "\<forall>station \<in> set (EVSE db').
                 evse_operatorId station \<in> op_id ` set ?tops \<union> op_id ` set subs
                 \<and> evse_operatorId station \<in> op_id ` set (Operator db')"
    using st unfolding ops by simp
  from l have "snd (subOperatorLoop ?ds []) = Inr subs" by simp
  with ops st' show ?thesis by (intro exI [of _ subs] conjI)
qed


theorem station_operator_ids_resolve_witness:
  "execute (Inr ()) noFailure exampleLookup noOtherColumns exampleRelations exampleFeed exampleStore =
     (Inr (),
      \<lparr>Operator = [\<lparr>op_id = ''DE*TBA'', op_name = Some ''Operator A'', op_parentId = None\<rparr>,
                   \<lparr>op_id = ''DE*TBB'', op_name = None, op_parentId = Some ''DE*TBA''\<rparr>],
       EVSE = [\<lparr>evse_id = ''DE*TBB*E5678'', evse_operatorId = ''DE*TBB'',
                evse_chargingStationName = Some ''StationName-DE''\<rparr>,
               \<lparr>evse_id = ''DE*TBA*E1234'', evse_operatorId = ''DE*TBA'',
                evse_chargingStationName = Some ''StationName-DE''\<rparr>],
       EVSE_tr = [\<lparr>evseId = ''DE*TBB*E5678'', chargingStationName = Some ''StationName-DE'',
                   languageCode = ''de'', additionalInfo = Some ''Inhalt''\<rparr>,
                  \<lparr>evseId = ''DE*TBB*E5678'', chargingStationName = Some ''StationName-EN'',
                   languageCode = ''en'', additionalInfo = Some ''Content''\<rparr>,
                  \<lparr>evseId = ''DE*TBB*E5678'', chargingStationName = None,
                   languageCode = ''FRA'', additionalInfo = Some ''Objet''\<rparr>],
       EVSERelation = [(EVSEPlug, ''DE*TBB*E5678'', 2), (EVSEPlug, ''DE*TBA*E1234'', 2)]\<rparr>)
   \<and> (\<exists>subOperators.
         snd (subOperatorLoop (retrieveEvseDataFromOperatorData exampleFeed) []) = Inr subOperators)"
proof -
  have h: "execute (Inr ()) noFailure exampleLookup noOtherColumns exampleRelations exampleFeed
      exampleStore =
     (Inr (),
      \<lparr>Operator = [\<lparr>op_id = ''DE*TBA'', op_name = Some ''Operator A'', op_parentId = None\<rparr>,
                   \<lparr>op_id = ''DE*TBB'', op_name = None, op_parentId = Some ''DE*TBA''\<rparr>],
       EVSE = [\<lparr>evse_id = ''DE*TBB*E5678'', evse_operatorId = ''DE*TBB'',
                evse_chargingStationName = Some ''StationName-DE''\<rparr>,
               \<lparr>evse_id = ''DE*TBA*E1234'', evse_operatorId = ''DE*TBA'',
                evse_chargingStationName = Some ''StationName-DE''\<rparr>],
       EVSE_tr = [\<lparr>evseId = ''DE*TBB*E5678'', chargingStationName = Some ''StationName-DE'',
                   languageCode = ''de'', additionalInfo = Some ''Inhalt''\<rparr>,
                  \<lparr>evseId = ''DE*TBB*E5678'', chargingStationName = Some ''StationName-EN'',
                   languageCode = ''en'', additionalInfo = Some ''Content''\<rparr>,
                  \<lparr>evseId = ''DE*TBB*E5678'', chargingStationName = None,
                   languageCode = ''FRA'', additionalInfo = Some ''Objet''\<rparr>],
       EVSERelation = [(EVSEPlug, ''DE*TBB*E5678'', 2), (EVSEPlug, ''DE*TBA*E1234'', 2)]\<rparr>)"
    by code_simp
  from station_operator_ids_resolve [OF h] h show ?thesis by blast
qed

subsection \<open>The lookup and the outcome of the run\<close>

lemma insertOrUpdate_outcome:
  "fst (insertOrUpdate failing table_update key rows trx) =
     (if failing then Inl PersistenceFailure else Inr ())"
  by (simp add: insertOrUpdate_def)

lemma processInternationalData_outcome:
  "fst (processInternationalData fails lk evseData trx) =
     (if fails EvseTrInsert then Inl PersistenceFailure else Inr ())"
  by (simp add: processInternationalData_def getInternationalData_rows insertOrUpdate_def)

lemma relationInsert_fold_outcomes:
  "fst (fold (relationInsert fails rows) tables st) =
     fst st @ map (\<lambda>table. if rows table = [] then Inr ()
                             else if fails (RelationInsert table) then Inl PersistenceFailure
                             else Inr ()) tables"
proof (induction tables arbitrary: st)
  case Nil
  show ?case by simp
next
  case (Cons t ts)
  have "fst (relationInsert fails rows t st) =
          fst st @ [if rows t = [] then Inr ()
                    else if fails (RelationInsert t) then Inl PersistenceFailure else Inr ()]"
    by (cases st) (simp add: relationInsert_def insertOrUpdate_def)
  with Cons.IH [of "relationInsert fails rows t st"] show ?case by simp
qed

lemma processEVSERelationalData_outcome:
  fixes trx trx' :: "'r database" and evseData :: "'a evseData_scheme list"
  shows "fst (processEVSERelationalData fails relations evseData trx) =
   fst (processEVSERelationalData fails relations evseData trx')"
proof -
  let ?ts = "[EVSEAuthenticationMode, EVSEChargingFacility, EVSEChargingMode,
              EVSEPaymentOption, EVSEPlug, EVSEValueAddedService]"
  let ?f = "\<lambda>t. fold (relationInsert fails (\<lambda>table. relations table evseData)) ?ts
                  ([] :: unit promise list, t)"
  have o: "fst (?f trx) = fst (?f trx')"
    by (simp only: relationInsert_fold_outcomes fst_conv)
  have r: "fst (processEVSERelationalData fails relations evseData t) =
           (case promise_all (fst (?f t)) of Inl e \<Rightarrow> Inl e | Inr _ \<Rightarrow> Inr ())" for t :: "'r database"
    unfolding processEVSERelationalData_def
    by (cases "?f t") (simp only: prod.case fst_conv split: sum.splits, simp split: sum.splits)
  show ?thesis unfolding r o ..
qed

lemma stationPhase_outcome_lookup:
  fixes trx :: "'r database" and evseData :: "'a evseData_scheme list"
  shows "fst (stationPhase fails lk otherColumns relations evseData trx) =
   fst (stationPhase fails lk' otherColumns relations evseData trx)"
proof -
  have tail: "fst (andThen (processInternationalData fails lk ds)
                     (processEVSERelationalData fails relations ds) t) =
              fst (andThen (processInternationalData fails lk' ds)
                     (processEVSERelationalData fails relations ds) t)"
    for ds :: "'a evseData_scheme list" and t :: "'r database"
  proof -
    obtain o1 t1 where a: "processInternationalData fails lk ds t = (o1, t1)"
      by (cases "processInternationalData fails lk ds t")
    obtain o2 t2 where b: "processInternationalData fails lk' ds t = (o2, t2)"
      by (cases "processInternationalData fails lk' ds t")
    from a b processInternationalData_outcome [of fails lk ds t]
      processInternationalData_outcome [of fails lk' ds t]
    have o: "o1 = o2" by simp
    show ?thesis
      using a b o processEVSERelationalData_outcome [of fails relations ds t1 t2]
      by (cases o2) (simp_all add: andThen_def)
  qed
  have step: "fst (andThen a (andThen (processInternationalData fails lk ds)
                     (processEVSERelationalData fails relations ds)) t) =
              fst (andThen a (andThen (processInternationalData fails lk' ds)
                     (processEVSERelationalData fails relations ds)) t)"
    for ds :: "'a evseData_scheme list" and t :: "'r database" and a :: "'r database action"
  proof -
    obtain o1 t1 where a: "a t = (o1, t1)" by (cases "a t")
    show ?thesis using a tail [of ds t1] by (cases o1) (simp_all add: andThen_def)
  qed
  obtain o1 t1 where c: "clearData fails trx = (o1, t1)" by (cases "clearData fails trx")
  obtain ds' o2 t2 where p: "processPossibleSubOperatorsFromEvseData fails evseData t1 = (ds', (o2, t2))"
    by (cases "processPossibleSubOperatorsFromEvseData fails evseData t1") auto
  show ?thesis
    unfolding stationPhase_def using c p step
    by (cases o1; cases o2) simp_all
qed

lemma execute_outcome_lookup:
  fixes db :: "'r database" and operatorData :: "'a operatorEvseData list"
  shows "fst (execute loadDependentData fails lk otherColumns relations operatorData db) =
   fst (execute loadDependentData fails lk' otherColumns relations operatorData db)"
proof -
  have t: "fst (transaction cb d) = fst (cb d)" for cb :: "'r database action" and d
    by (cases "cb d") (auto simp: transaction_def split: sum.splits)
  have p: "fst (processEvseData fails lk otherColumns relations operatorData d) =
           fst (processEvseData fails lk' otherColumns relations operatorData d)" for d :: "'r database"
    unfolding processEvseData_def Let_def t by (rule stationPhase_outcome_lookup)
  obtain o1 d1 where a: "processOperatorData fails operatorData db = (o1, d1)"
    by (cases "processOperatorData fails operatorData db")
  show ?thesis
    using a p [of d1]
    by (cases loadDependentData; cases o1) (simp_all add: execute_def andThen_def)
qed


text \<open>
  C7. A failed lookup does not fail anything: when the lookup of a country code is
  rejected, \<^verbatim>\<open>getEvseTr\<close> still fulfils, with the row whose language code is the raw
  country code; \<^verbatim>\<open>getEvseTr\<close> fulfils whatever the lookup answers, and so does
  \<^verbatim>\<open>getInternationalData\<close> on every station list; and whether a run is fulfilled or
  rejected, and with which error, is the same with any two lookups.
\<close>

theorem lookup_failure_falls_back:
  fixes db :: "'r database" and operatorData :: "'a operatorEvseData list"
    and evseData :: "'b evseData_scheme list"
  shows "(lk countryCode = Inl e \<longrightarrow>
      getEvseTr lk countryCode stationId name info =
        Inr \<lparr>evseId = stationId, chargingStationName = name, languageCode = countryCode,
             additionalInfo = info\<rparr>)
   \<and> (\<exists>row. getEvseTr lk countryCode stationId name info = Inr row)
   \<and> (\<exists>rows. getInternationalData lk evseData = Inr rows)
   \<and> fst (execute loadDependentData fails lk otherColumns relations operatorData db) =
       fst (execute loadDependentData fails lk' otherColumns relations operatorData db)"
  using execute_outcome_lookup [of loadDependentData fails lk otherColumns relations operatorData db lk']
  by (simp add: getEvseTr_fulfilled getInternationalData_rows languageCodeOf_def)

theorem lookup_failure_falls_back_witness:
  "exampleLookup ''FRA'' = Inl LookupFailure
   \<and> getEvseTr exampleLookup ''FRA'' ''DE*TBB*E5678'' None (Some ''Objet'') =
        Inr \<lparr>evseId = ''DE*TBB*E5678'', chargingStationName = None, languageCode = ''FRA'',
             additionalInfo = Some ''Objet''\<rparr>
   \<and> fst (execute (Inr ()) noFailure exampleLookup noOtherColumns exampleRelations exampleFeed
             exampleStore) =
       fst (execute (Inr ()) noFailure Inr noOtherColumns exampleRelations exampleFeed
             exampleStore)"
  using lookup_failure_falls_back [where lk = exampleLookup and countryCode = "''FRA''"
      and e = LookupFailure and stationId = "''DE*TBB*E5678''" and name = None
      and info = "Some ''Objet''" and evseData = "[exampleStation]"
      and loadDependentData = "Inr ()" and fails = noFailure and otherColumns = noOtherColumns
      and relations = exampleRelations and operatorData = exampleFeed and db = exampleStore
      and lk' = Inr]
  by (simp add: exampleLookup_def)

end
